theory Spec2Isabelle
  imports Complex_Main "HOL-Library.Sublist"
begin

section \<open>The episodic training script \<^verbatim>\<open>meta_learn/proto/train.py\<close>\<close>

text \<open>
  The script drives a numerical framework: every tensor operation, the network, the
  optimizer, the datasets and the metrics writer are objects of external libraries.
  The embedding keeps the script's own control flow (each loop, its break, the
  accumulators, the logging gate, the directory bookkeeping) and takes each external
  operation as a function that is passed in. A run of a piece of the script is a
  function of the autograd mode and of the world (everything mutable outside the
  script: network parameters, gradients, optimizer state, the disk); it gives back a
  result or the exception that ended it, the list of external calls it made, in order,
  and the world it left.
\<close>

subsection \<open>Values\<close>

text \<open>
  A Python float is modelled by an exact rational, or \<open>NaN\<close>; rounding and the
  infinities are outside the model.
\<close>

datatype pyfloat = NaN | Float rat

text \<open>
  The exceptions that can leave the script: the interpreter's own
  \<^verbatim>\<open>ZeroDivisionError\<close> (from \<^verbatim>\<open>%\<close>), and whatever an external call raises.
\<close>

datatype 'e exn = ZeroDivisionError | LibraryError 'e

datatype split = MetaTrain | MetaVal

text \<open>The external calls of the script, with the arguments that the script chooses.\<close>

datatype 'wr call =
    LoaderNext
  | ModelZeroGrad
  | TensorTo string
  | ModelCall bool
  | LossFn
  | DetachItem
  | OptimizerZeroGrad
  | LossBackward
  | OptimizerStep
  | TorchArgmax int
  | TensorEq
  | NoGradEnter
  | NoGradExit
  | NewSummaryWriter string
  | OsPathExists string bool
  | Omniglot string int int bool split bool
  | NewBatchMetaDataLoader int bool int
  | NewProtoNetwork int int
  | ModelParameters
  | NewAdam pyfloat
  | NewCrossEntropyLoss
  | CudaIsAvailable bool
  | ModelCuda
  | Print string
  | PrintMetrics pyfloat pyfloat pyfloat
  | AddScalar 'wr string pyfloat int

text \<open>An event is a call together with the exception it raised, if any.\<close>

type_synonym ('wr, 'e) event = "'wr call \<times> 'e option"

type_synonym ('a, 'w, 'e, 'wr) prog =
  "bool \<Rightarrow> 'w \<Rightarrow> ('e exn + 'a) \<times> ('wr, 'e) event list \<times> 'w"

subsection \<open>Sequencing\<close>

definition returnM :: "'a \<Rightarrow> ('a, 'w, 'e, 'wr) prog" where
  "returnM a = (\<lambda>g w. (Inr a, [], w))"

definition raise :: "'e exn \<Rightarrow> ('a, 'w, 'e, 'wr) prog" where
  "raise x = (\<lambda>g w. (Inl x, [], w))"

text \<open>
  One statement after another: an exception of the first ends the run, no statement of
  the script catches it.
\<close>

definition thenM ::
  "('a, 'w, 'e, 'wr) prog \<Rightarrow> ('a \<Rightarrow> ('b, 'w, 'e, 'wr) prog) \<Rightarrow> ('b, 'w, 'e, 'wr) prog" where
  "thenM m f = (\<lambda>g w.
     case m g w of
       (Inl x, t, w1) \<Rightarrow> (Inl x, t, w1)
     | (Inr a, t, w1) \<Rightarrow> (case f a g w1 of (r, t2, w2) \<Rightarrow> (r, t @ t2, w2)))"

text \<open>A call into a library that may change the world and may raise.\<close>

definition call ::
  "'wr call \<Rightarrow> ('w \<Rightarrow> ('e + 'a) \<times> 'w) \<Rightarrow> ('a, 'w, 'e, 'wr) prog" where
  "call c op = (\<lambda>g w.
     case op w of
       (Inl e, w1) \<Rightarrow> (Inl (LibraryError e), [(c, Some e)], w1)
     | (Inr a, w1) \<Rightarrow> (Inr a, [(c, None)], w1))"

text \<open>A library function on values: it may raise, the world stays as it is.\<close>

definition callp :: "'wr call \<Rightarrow> 'e + 'a \<Rightarrow> ('a, 'w, 'e, 'wr) prog" where
  "callp c r = call c (\<lambda>w. (r, w))"

text \<open>A call that reads a flag of the world; the answer is part of the event.\<close>

definition query :: "(bool \<Rightarrow> 'wr call) \<Rightarrow> ('w \<Rightarrow> bool) \<Rightarrow> (bool, 'w, 'e, 'wr) prog" where
  "query c q = (\<lambda>g w. (Inr (q w), [(c (q w), None)], w))"

text \<open>A call that only shows something (\<^verbatim>\<open>print\<close>).\<close>

definition emit :: "'wr call \<Rightarrow> (unit, 'w, 'e, 'wr) prog" where
  "emit c = (\<lambda>g w. (Inr (), [(c, None)], w))"

text \<open>The autograd mode in force.\<close>

definition grad_mode :: "(bool, 'w, 'e, 'wr) prog" where
  "grad_mode = (\<lambda>g w. (Inr g, [], w))"

text \<open>
  \<^verbatim>\<open>with torch.no_grad():\<close> switches autograd off for the block and restores the
  mode when the block is left, also when it is left by an exception.
\<close>

definition no_grad :: "('a, 'w, 'e, 'wr) prog \<Rightarrow> ('a, 'w, 'e, 'wr) prog" where
  "no_grad body = (\<lambda>g w.
     case body False w of
       (r, t, w1) \<Rightarrow> (r, [(NoGradEnter, None)] @ t @ [(NoGradExit, None)], w1))"

subsection \<open>The objects of the training and the test loop\<close>

text \<open>
  A batch is the dictionary the episodic loader yields: under \<^verbatim>\<open>"train"\<close> the support
  inputs and labels, under \<^verbatim>\<open>"test"\<close> the query inputs and labels.
\<close>

record 't batch =
  b_train :: "'t \<times> 't"
  b_test :: "'t \<times> 't"

text \<open>
  What a loader yields when it is iterated: each \<^verbatim>\<open>next\<close> gives a batch or raises.
  The progress bar \<^verbatim>\<open>tqdm\<close> around it hands the same items on and is left out.
\<close>

type_synonym ('t, 'e) dataloader = "('e + 't batch) list"

record ('w, 'e, 't, 'ps) module =
  m_zero_grad :: "'w \<Rightarrow> ('e + unit) \<times> 'w"
  m_call :: "bool \<Rightarrow> 't \<Rightarrow> 't \<Rightarrow> 't \<Rightarrow> 'w \<Rightarrow> ('e + 't) \<times> 'w"
  m_parameters :: "'w \<Rightarrow> ('e + 'ps) \<times> 'w"
  m_cuda :: "'w \<Rightarrow> ('e + unit) \<times> 'w"

record ('w, 'e) optimizer =
  o_zero_grad :: "'w \<Rightarrow> ('e + unit) \<times> 'w"
  o_step :: "'w \<Rightarrow> ('e + unit) \<times> 'w"

text \<open>
  The tensor operations used in a loop body. The comparison \<^verbatim>\<open>==\<close> gives a boolean tensor,
  modelled by the list of its entries.
\<close>

record ('w, 'e, 't) torch =
  tensor_to :: "string \<Rightarrow> 't \<Rightarrow> 'e + 't"
  detach_item :: "'t \<Rightarrow> 'e + pyfloat"
  loss_backward :: "'t \<Rightarrow> 'w \<Rightarrow> ('e + unit) \<times> 'w"
  torch_argmax :: "'t \<Rightarrow> int \<Rightarrow> 'e + 't"
  tensor_eq :: "'t \<Rightarrow> 't \<Rightarrow> 'e + bool list"

subsection \<open>Means\<close>

fun float_val :: "pyfloat \<Rightarrow> rat" where
  "float_val NaN = 0"
| "float_val (Float q) = q"

text \<open>
  \<^verbatim>\<open>numpy.mean\<close> of a list of floats: the sum over the length; of the empty list it is
  \<^verbatim>\<open>nan\<close> (with a warning, not an exception), and a \<^verbatim>\<open>nan\<close> entry makes it \<^verbatim>\<open>nan\<close>.
\<close>

definition np_mean :: "pyfloat list \<Rightarrow> pyfloat" where
  "np_mean xs =
     (if xs = [] \<or> NaN \<in> set xs then NaN
      else Float (sum_list (map float_val xs) / of_nat (length xs)))"

text \<open>\<^verbatim>\<open>.float()\<close> of a boolean tensor: 1.0 for true, 0.0 for false.\<close>

definition tensor_float :: "bool list \<Rightarrow> pyfloat list" where
  "tensor_float bs = map (\<lambda>b. Float (if b then 1 else 0)) bs"

text \<open>\<^verbatim>\<open>torch.mean(...).item()\<close> of a float tensor: the mean of all its entries.\<close>

definition torch_mean :: "pyfloat list \<Rightarrow> pyfloat" where
  "torch_mean xs =
     (if xs = [] \<or> NaN \<in> set xs then NaN
      else Float (sum_list (map float_val xs) / of_nat (length xs)))"

subsection \<open>\<^verbatim>\<open>train\<close>\<close>

text \<open>The call \<^verbatim>\<open>model(support_x, support_y, query_x)\<close>, in the autograd mode in force.\<close>

definition model_forward ::
  "('w, 'e, 't, 'ps) module \<Rightarrow> 't \<Rightarrow> 't \<Rightarrow> 't \<Rightarrow> ('t, 'w, 'e, 'wr) prog" where
  "model_forward model support_x support_y query_x =
     thenM grad_mode (\<lambda>g. call (ModelCall g) (m_call model g support_x support_y query_x))"

text \<open>
  The body of the loop of \<^verbatim>\<open>train\<close> up to the optimizer step; its value is the float
  that the loop appends to \<^verbatim>\<open>avg_loss\<close>. (The source appends before the backward pass;
  the list is local to the call, so the place of the append cannot be observed.)
\<close>

definition train_body ::
  "string \<Rightarrow> ('w, 'e, 't) torch \<Rightarrow> ('w, 'e, 't, 'ps) module \<Rightarrow> ('t \<Rightarrow> 't \<Rightarrow> 'e + 't) \<Rightarrow>
   ('w, 'e) optimizer \<Rightarrow> 't batch \<Rightarrow> (pyfloat, 'w, 'e, 'wr) prog" where
  "train_body device T model loss_fn optimizer batch =
     thenM (call ModelZeroGrad (m_zero_grad model)) (\<lambda>_.
     case b_train batch of (support_x, support_y) \<Rightarrow>
     case b_test batch of (query_x, query_y) \<Rightarrow>
     thenM (callp (TensorTo device) (tensor_to T device support_x)) (\<lambda>support_x.
     thenM (callp (TensorTo device) (tensor_to T device support_y)) (\<lambda>support_y.
     thenM (callp (TensorTo device) (tensor_to T device query_x)) (\<lambda>query_x.
     thenM (callp (TensorTo device) (tensor_to T device query_y)) (\<lambda>query_y.
     thenM (model_forward model support_x support_y query_x) (\<lambda>logits.
     thenM (callp LossFn (loss_fn logits query_y)) (\<lambda>loss.
     thenM (callp DetachItem (detach_item T loss)) (\<lambda>l.
     thenM (call OptimizerZeroGrad (o_zero_grad optimizer)) (\<lambda>_.
     thenM (call LossBackward (loss_backward T loss)) (\<lambda>_.
     thenM (call OptimizerStep (o_step optimizer)) (\<lambda>_.
     returnM l)))))))))))"

text \<open>
  The loop \<^verbatim>\<open>for batch_idx, batch in enumerate(pbar)\<close>: \<open>batch_idx\<close> is the index of the
  batch that comes next, \<open>avg_loss\<close> the list built so far. The test
  \<^verbatim>\<open>batch_idx > num_batches\<close> comes last in the body.
\<close>

fun train_loop ::
  "string \<Rightarrow> ('w, 'e, 't) torch \<Rightarrow> ('w, 'e, 't, 'ps) module \<Rightarrow> ('t \<Rightarrow> 't \<Rightarrow> 'e + 't) \<Rightarrow>
   ('w, 'e) optimizer \<Rightarrow> int \<Rightarrow> int \<Rightarrow> ('t, 'e) dataloader \<Rightarrow> pyfloat list \<Rightarrow>
   (pyfloat list, 'w, 'e, 'wr) prog" where
  "train_loop device T model loss_fn optimizer num_batches batch_idx [] avg_loss =
     returnM avg_loss"
| "train_loop device T model loss_fn optimizer num_batches batch_idx (y # ys) avg_loss =
     thenM (callp LoaderNext y) (\<lambda>batch.
     thenM (train_body device T model loss_fn optimizer batch) (\<lambda>l.
       if batch_idx > num_batches then returnM (avg_loss @ [l])
       else train_loop device T model loss_fn optimizer num_batches (batch_idx + 1) ys
              (avg_loss @ [l])))"

definition train ::
  "string \<Rightarrow> ('w, 'e, 't) torch \<Rightarrow> ('t, 'e) dataloader \<Rightarrow> ('w, 'e, 't, 'ps) module \<Rightarrow>
   ('t \<Rightarrow> 't \<Rightarrow> 'e + 't) \<Rightarrow> ('w, 'e) optimizer \<Rightarrow> int \<Rightarrow> (pyfloat, 'w, 'e, 'wr) prog" where
  "train device T dataloader model loss_fn optimizer num_batches =
     thenM (train_loop device T model loss_fn optimizer num_batches 0 dataloader [])
       (\<lambda>avg_loss. returnM (np_mean avg_loss))"

subsection \<open>\<^verbatim>\<open>test\<close>\<close>

text \<open>
  The body of the loop of \<^verbatim>\<open>test\<close>; its value is the pair of floats that the loop
  appends to \<^verbatim>\<open>accuracy_list\<close> and to \<^verbatim>\<open>avg_loss\<close>.
\<close>

definition test_body ::
  "string \<Rightarrow> ('w, 'e, 't) torch \<Rightarrow> ('w, 'e, 't, 'ps) module \<Rightarrow> ('t \<Rightarrow> 't \<Rightarrow> 'e + 't) \<Rightarrow>
   't batch \<Rightarrow> (pyfloat \<times> pyfloat, 'w, 'e, 'wr) prog" where
  "test_body device T model loss_fn batch =
     thenM (call ModelZeroGrad (m_zero_grad model)) (\<lambda>_.
     case b_train batch of (support_x, support_y) \<Rightarrow>
     case b_test batch of (query_x, query_y) \<Rightarrow>
     thenM (callp (TensorTo device) (tensor_to T device support_x)) (\<lambda>support_x.
     thenM (callp (TensorTo device) (tensor_to T device support_y)) (\<lambda>support_y.
     thenM (callp (TensorTo device) (tensor_to T device query_x)) (\<lambda>query_x.
     thenM (callp (TensorTo device) (tensor_to T device query_y)) (\<lambda>query_y.
     thenM (model_forward model support_x support_y query_x) (\<lambda>logits.
     thenM (callp LossFn (loss_fn logits query_y)) (\<lambda>loss.
     thenM (callp DetachItem (detach_item T loss)) (\<lambda>l.
     thenM (callp (TorchArgmax 1) (torch_argmax T logits 1)) (\<lambda>test_predictions.
     thenM (callp TensorEq (tensor_eq T test_predictions query_y)) (\<lambda>eq.
     returnM (torch_mean (tensor_float eq), l)))))))))))"

fun test_loop ::
  "string \<Rightarrow> ('w, 'e, 't) torch \<Rightarrow> ('w, 'e, 't, 'ps) module \<Rightarrow> ('t \<Rightarrow> 't \<Rightarrow> 'e + 't) \<Rightarrow>
   int \<Rightarrow> int \<Rightarrow> ('t, 'e) dataloader \<Rightarrow> pyfloat list \<Rightarrow> pyfloat list \<Rightarrow>
   (pyfloat list \<times> pyfloat list, 'w, 'e, 'wr) prog" where
  "test_loop device T model loss_fn num_batches batch_idx [] accuracy_list avg_loss =
     returnM (accuracy_list, avg_loss)"
| "test_loop device T model loss_fn num_batches batch_idx (y # ys) accuracy_list avg_loss =
     thenM (callp LoaderNext y) (\<lambda>batch.
     thenM (test_body device T model loss_fn batch) (\<lambda>(accuracy, l).
       if batch_idx > num_batches then returnM (accuracy_list @ [accuracy], avg_loss @ [l])
       else test_loop device T model loss_fn num_batches (batch_idx + 1) ys
              (accuracy_list @ [accuracy]) (avg_loss @ [l])))"

definition test ::
  "string \<Rightarrow> ('w, 'e, 't) torch \<Rightarrow> ('t, 'e) dataloader \<Rightarrow> ('w, 'e, 't, 'ps) module \<Rightarrow>
   ('t \<Rightarrow> 't \<Rightarrow> 'e + 't) \<Rightarrow> int \<Rightarrow> (pyfloat \<times> pyfloat, 'w, 'e, 'wr) prog" where
  "test device T dataloader model loss_fn num_batches =
     thenM (no_grad (test_loop device T model loss_fn num_batches 0 dataloader [] []))
       (\<lambda>(accuracy_list, avg_loss). returnM (np_mean accuracy_list, np_mean avg_loss))"

subsection \<open>\<^verbatim>\<open>main\<close>\<close>

record config =
  num_classes :: int
  num_samples :: int
  num_batches :: int
  batch_size :: int
  epochs :: int
  log_every :: int
  path :: string

text \<open>\<^verbatim>\<open>str\<close> of an integer, as \<^verbatim>\<open>"{}".format\<close> and an f-string write it.\<close>

fun str_nat :: "nat \<Rightarrow> string" where
  "str_nat n =
     (if n < 10 then [''0123456789'' ! n]
      else str_nat (n div 10) @ [''0123456789'' ! (n mod 10)])"

declare str_nat.simps [simp del]

definition str_int :: "int \<Rightarrow> string" where
  "str_int i = (if i < 0 then CHR ''-'' # str_nat (nat (- i)) else str_nat (nat i))"

definition os_pardir :: string where
  "os_pardir = ''..''"

text \<open>
  Python's \<^verbatim>\<open>%\<close> on integers: the remainder has the sign of the divisor, as \<open>mod\<close> on
  \<open>int\<close> has, and a zero divisor raises.
\<close>

definition py_mod :: "int \<Rightarrow> int \<Rightarrow> (int, 'w, 'e, 'wr) prog" where
  "py_mod a b = (if b = 0 then raise ZeroDivisionError else returnM (a mod b))"

text \<open>
  The libraries \<^verbatim>\<open>main\<close> builds its objects from. A loader object is modelled by what
  it yields when it is iterated in a given epoch.
\<close>

record ('w, 'e, 't, 'ps, 'wr, 'ds) env =
  SummaryWriter :: "string \<Rightarrow> 'w \<Rightarrow> ('e + 'wr) \<times> 'w"
  add_scalar :: "'wr \<Rightarrow> string \<Rightarrow> pyfloat \<Rightarrow> int \<Rightarrow> 'w \<Rightarrow> ('e + unit) \<times> 'w"
  os_path_join :: "string \<Rightarrow> string \<Rightarrow> string"
  os_path_abspath :: "string \<Rightarrow> string"
  os_path_exists :: "string \<Rightarrow> 'w \<Rightarrow> bool"
  omniglot :: "string \<Rightarrow> int \<Rightarrow> int \<Rightarrow> bool \<Rightarrow> split \<Rightarrow> bool \<Rightarrow> 'w \<Rightarrow> ('e + 'ds) \<times> 'w"
  BatchMetaDataLoader ::
    "'ds \<Rightarrow> int \<Rightarrow> bool \<Rightarrow> int \<Rightarrow> 'w \<Rightarrow> ('e + (int \<Rightarrow> ('t, 'e) dataloader)) \<times> 'w"
  ProtoNetwork :: "int \<Rightarrow> int \<Rightarrow> 'w \<Rightarrow> ('e + ('w, 'e, 't, 'ps) module) \<times> 'w"
  Adam :: "'ps \<Rightarrow> pyfloat \<Rightarrow> 'w \<Rightarrow> ('e + ('w, 'e) optimizer) \<times> 'w"
  CrossEntropyLoss :: "'w \<Rightarrow> ('e + ('t \<Rightarrow> 't \<Rightarrow> 'e + 't)) \<times> 'w"
  cuda_is_available :: "'w \<Rightarrow> bool"
  torch_lib :: "('w, 'e, 't) torch"

text \<open>The three \<^verbatim>\<open>writer.add_scalar\<close> lines and the \<^verbatim>\<open>print\<close> before them.\<close>

definition log_metrics ::
  "('w, 'e, 't, 'ps, 'wr, 'ds) env \<Rightarrow> 'wr \<Rightarrow> pyfloat \<Rightarrow> pyfloat \<Rightarrow> pyfloat \<Rightarrow> int \<Rightarrow>
   (unit, 'w, 'e, 'wr) prog" where
  "log_metrics E writer train_loss test_loss test_accuracy t =
     thenM (emit (PrintMetrics train_loss test_loss test_accuracy)) (\<lambda>_.
     thenM (call (AddScalar writer ''Train Loss'' train_loss t)
              (add_scalar E writer ''Train Loss'' train_loss t)) (\<lambda>_.
     thenM (call (AddScalar writer ''Test Loss'' test_loss t)
              (add_scalar E writer ''Test Loss'' test_loss t)) (\<lambda>_.
     call (AddScalar writer ''Meta-Test Accuracy'' test_accuracy t)
       (add_scalar E writer ''Meta-Test Accuracy'' test_accuracy t))))"

text \<open>The loop \<^verbatim>\<open>for t in range(epochs)\<close>, over the epochs that are left.\<close>

fun epochs_loop ::
  "string \<Rightarrow> ('w, 'e, 't, 'ps, 'wr, 'ds) env \<Rightarrow> config \<Rightarrow> 'wr \<Rightarrow>
   (int \<Rightarrow> ('t, 'e) dataloader) \<Rightarrow> (int \<Rightarrow> ('t, 'e) dataloader) \<Rightarrow>
   ('w, 'e, 't, 'ps) module \<Rightarrow> ('w, 'e) optimizer \<Rightarrow> ('t \<Rightarrow> 't \<Rightarrow> 'e + 't) \<Rightarrow>
   int list \<Rightarrow> (unit, 'w, 'e, 'wr) prog" where
  "epochs_loop device E config writer trainloader testloader model optimizer loss_fn [] =
     returnM ()"
| "epochs_loop device E config writer trainloader testloader model optimizer loss_fn (t # ts) =
     thenM (emit (Print (''Epoch '' @ str_int (t + 1) @ [CHR 0x0A] @
                         ''-------------------------------''))) (\<lambda>_.
     thenM (train device (torch_lib E) (trainloader t) model loss_fn optimizer
              (num_batches config)) (\<lambda>train_loss.
     thenM (py_mod t (log_every config)) (\<lambda>r.
     thenM (if r = 0
            then thenM (test device (torch_lib E) (testloader t) model loss_fn
                          (num_batches config)) (\<lambda>(test_accuracy, test_loss).
                 log_metrics E writer train_loss test_loss test_accuracy t)
            else returnM ()) (\<lambda>_.
     epochs_loop device E config writer trainloader testloader model optimizer loss_fn ts))))"

text \<open>
  \<^verbatim>\<open>main(config)\<close>. The global \<^verbatim>\<open>device\<close>, set when the module is loaded, is a
  parameter.
\<close>

definition main ::
  "string \<Rightarrow> ('w, 'e, 't, 'ps, 'wr, 'ds) env \<Rightarrow> config \<Rightarrow> (unit, 'w, 'e, 'wr) prog" where
  "main device E config =
     (let bs = batch_size config;
          way = num_classes config;
          shot = num_samples config;
          logdir = path config @ ''/'' @ ''model'' @ ''/_'' @ str_int (num_classes config) @
                   ''_'' @ str_int 1
      in
      thenM (call (NewSummaryWriter logdir) (SummaryWriter E logdir)) (\<lambda>writer.
      let parent_dir = os_path_abspath E (os_path_join E (path config) os_pardir);
          data_path = parent_dir @ ''/data/''
      in
      thenM (query (OsPathExists (data_path @ ''/omniglot''))
               (os_path_exists E (data_path @ ''/omniglot''))) (\<lambda>exists.
      let download = (if exists then False else True) in
      thenM (call (Omniglot data_path shot way True MetaTrain download)
               (omniglot E data_path shot way True MetaTrain download)) (\<lambda>train_dataset.
      thenM (call (Omniglot data_path shot way True MetaVal download)
               (omniglot E data_path shot way True MetaVal download)) (\<lambda>test_dataset.
      thenM (call (NewBatchMetaDataLoader bs True 4)
               (BatchMetaDataLoader E train_dataset bs True 4)) (\<lambda>trainloader.
      thenM (call (NewBatchMetaDataLoader bs True 4)
               (BatchMetaDataLoader E test_dataset bs True 4)) (\<lambda>testloader.
      thenM (call (NewProtoNetwork 1 32) (ProtoNetwork E 1 32)) (\<lambda>model.
      thenM (call ModelParameters (m_parameters model)) (\<lambda>parameters.
      thenM (call (NewAdam (Float (1 / 10000))) (Adam E parameters (Float (1 / 10000))))
        (\<lambda>optimizer.
      thenM (call NewCrossEntropyLoss (CrossEntropyLoss E)) (\<lambda>loss_fn.
      thenM (query CudaIsAvailable (cuda_is_available E)) (\<lambda>available.
      thenM (if available then call ModelCuda (m_cuda model) else returnM ()) (\<lambda>_.
      epochs_loop device E config writer trainloader testloader model optimizer loss_fn
        [0..epochs config - 1])))))))))))))"

subsection \<open>The command line\<close>








section \<open>Notions used to state the properties\<close>

text \<open>One run of \<open>f\<close> for each item of a list, in order, the values collected.\<close>

fun mapM :: "('a \<Rightarrow> ('b, 'w, 'e, 'wr) prog) \<Rightarrow> 'a list \<Rightarrow> ('b list, 'w, 'e, 'wr) prog" where
  "mapM f [] = returnM []"
| "mapM f (x # xs) = thenM (f x) (\<lambda>y. thenM (mapM f xs) (\<lambda>ys. returnM (y # ys)))"

text \<open>
  How many items a loop that is about to fetch the item with index \<open>batch_idx\<close> still
  takes from a loader that never runs dry.
\<close>

definition iterations :: "int \<Rightarrow> int \<Rightarrow> nat" where
  "iterations n batch_idx = (if batch_idx > n then 1 else nat (n - batch_idx) + 2)"

text \<open>One pass of each loop: fetch the next item, run the body on it.\<close>

definition train_iter ::
  "string \<Rightarrow> ('w, 'e, 't) torch \<Rightarrow> ('w, 'e, 't, 'ps) module \<Rightarrow> ('t \<Rightarrow> 't \<Rightarrow> 'e + 't) \<Rightarrow>
   ('w, 'e) optimizer \<Rightarrow> 'e + 't batch \<Rightarrow> (pyfloat, 'w, 'e, 'wr) prog" where
  "train_iter device T model loss_fn optimizer y =
     thenM (callp LoaderNext y) (train_body device T model loss_fn optimizer)"

definition test_iter ::
  "string \<Rightarrow> ('w, 'e, 't) torch \<Rightarrow> ('w, 'e, 't, 'ps) module \<Rightarrow> ('t \<Rightarrow> 't \<Rightarrow> 'e + 't) \<Rightarrow>
   'e + 't batch \<Rightarrow> (pyfloat \<times> pyfloat, 'w, 'e, 'wr) prog" where
  "test_iter device T model loss_fn y =
     thenM (callp LoaderNext y) (test_body device T model loss_fn)"

text \<open>The calls of one pass, in the order of the source lines.\<close>

definition train_calls :: "string \<Rightarrow> bool \<Rightarrow> 'wr call list" where
  "train_calls device g =
     [LoaderNext, ModelZeroGrad, TensorTo device, TensorTo device, TensorTo device,
      TensorTo device, ModelCall g, LossFn, DetachItem, OptimizerZeroGrad, LossBackward,
      OptimizerStep]"

definition test_calls :: "string \<Rightarrow> 'wr call list" where
  "test_calls device =
     [LoaderNext, ModelZeroGrad, TensorTo device, TensorTo device, TensorTo device,
      TensorTo device, ModelCall False, LossFn, DetachItem, TorchArgmax 1, TensorEq]"

text \<open>
  What a trace shows under a projection \<open>\<pi>\<close> of its calls, and the statement that a run
  from world \<open>w\<close> shows the list \<open>xs\<close>: all of it when the run returns, a prefix of it when
  an exception ends the run.
\<close>

definition marks :: "('wr call \<Rightarrow> 'm list) \<Rightarrow> ('wr, 'e) event list \<Rightarrow> 'm list" where
  "marks \<pi> t = concat (map (\<lambda>ev. \<pi> (fst ev)) t)"

definition follows ::
  "('wr call \<Rightarrow> 'm list) \<Rightarrow> bool \<Rightarrow> 'w \<Rightarrow> ('a, 'w, 'e, 'wr) prog \<Rightarrow> 'm list \<Rightarrow> bool" where
  "follows \<pi> g w m xs \<longleftrightarrow>
     (case m g w of (r, t, w') \<Rightarrow> prefix (marks \<pi> t) xs \<and> (isl r \<or> marks \<pi> t = xs))"

definition only :: "('wr call \<Rightarrow> bool) \<Rightarrow> 'wr call \<Rightarrow> 'wr call list" where
  "only P c = (if P c then [c] else [])"

text \<open>
  A result and a trace fit together when no exception of a call was swallowed: every
  call that raised is the reason of the result, and a library exception in the result
  was raised by a call of the trace.
\<close>

definition unhandled :: "'e exn + 'a \<Rightarrow> ('wr, 'e) event list \<Rightarrow> bool" where
  "unhandled r t \<longleftrightarrow>
     (\<forall>c x. (c, Some x) \<in> set t \<longrightarrow> r = Inl (LibraryError x)) \<and>
     (\<forall>x. r = Inl (LibraryError x) \<longrightarrow> (\<exists>c. (c, Some x) \<in> set t))"

definition propagates :: "bool \<Rightarrow> ('a, 'w, 'e, 'wr) prog \<Rightarrow> bool" where
  "propagates Z m \<longleftrightarrow>
     (\<forall>g w. case m g w of (r, t, w') \<Rightarrow>
        unhandled r t \<and> (r = Inl ZeroDivisionError \<longrightarrow> Z))"

text \<open>A run leaves an observation of the world as it found it.\<close>

definition keeps :: "('w \<Rightarrow> 'p) \<Rightarrow> bool \<Rightarrow> ('a, 'w, 'e, 'wr) prog \<Rightarrow> bool" where
  "keeps obs g m \<longleftrightarrow> (\<forall>w. obs (snd (snd (m g w))) = obs w)"


text \<open>What \<^verbatim>\<open>main\<close> computes before its first call, and the banner of an epoch.\<close>

definition logdir_of :: "config \<Rightarrow> string" where
  "logdir_of config = path config @ ''/model/_'' @ str_int (num_classes config) @ ''_1''"

definition data_dir :: "('w, 'e, 't, 'ps, 'wr, 'ds) env \<Rightarrow> config \<Rightarrow> string" where
  "data_dir E config = os_path_abspath E (os_path_join E (path config) ''..'') @ ''/data/''"

definition omniglot_dir :: "('w, 'e, 't, 'ps, 'wr, 'ds) env \<Rightarrow> config \<Rightarrow> string" where
  "omniglot_dir E config =
     os_path_abspath E (os_path_join E (path config) ''..'') @ ''/data//omniglot''"

definition banner :: "int \<Rightarrow> string" where
  "banner t = ''Epoch '' @ str_int (t + 1) @ [CHR 0x0A] @ ''-------------------------------''"

text \<open>An epoch logs when the gate \<^verbatim>\<open>t % config.log_every == 0\<close> is passed.\<close>

definition logs_at :: "config \<Rightarrow> int \<Rightarrow> bool" where
  "logs_at config t \<longleftrightarrow> log_every config \<noteq> 0 \<and> t mod log_every config = 0"

text \<open>
  The calls that the statements about \<^verbatim>\<open>main\<close> look at; a projection that shows
  nothing of the others is \<open>quiet\<close>.
\<close>

fun loud :: "'wr call \<Rightarrow> bool" where
  "loud (NewSummaryWriter d) = True"
| "loud (Omniglot d s wy sh sp dl) = True"
| "loud (Print s) = True"
| "loud NoGradEnter = True"
| "loud (AddScalar wr tag v s) = True"
| "loud c = False"

definition quiet :: "('wr call \<Rightarrow> 'm list) \<Rightarrow> bool" where
  "quiet \<pi> \<longleftrightarrow> (\<forall>c. \<not> loud c \<longrightarrow> \<pi> c = [])"

text \<open>
  What one epoch shows: its banner and, if it logs, the entry into the test loop and
  the three scalars; \<open>sc\<close> says what a scalar with a tag and a step shows.
\<close>

definition epoch_marks ::
  "('wr call \<Rightarrow> 'm list) \<Rightarrow> (string \<Rightarrow> int \<Rightarrow> 'm list) \<Rightarrow> config \<Rightarrow> int \<Rightarrow> 'm list" where
  "epoch_marks \<pi> sc config t =
     \<pi> (Print (banner t)) @
     (if logs_at config t
      then \<pi> NoGradEnter @ sc ''Train Loss'' t @ sc ''Test Loss'' t @
           sc ''Meta-Test Accuracy'' t
      else [])"

text \<open>The projections used for \<^verbatim>\<open>main\<close>: the dataset constructors; the scalars written,
  each with its writer, tag and step; and the course of the epochs.\<close>

fun is_omniglot :: "'wr call \<Rightarrow> bool" where
  "is_omniglot (Omniglot d s wy sh sp dl) = True"
| "is_omniglot c = False"

fun scalar_of :: "'wr call \<Rightarrow> ('wr \<times> string \<times> int) list" where
  "scalar_of (AddScalar writer tag v s) = [(writer, tag, s)]"
| "scalar_of c = []"

datatype mark = Printed string | TestRuns | ScalarWritten string int

fun gate_of :: "'wr call \<Rightarrow> mark list" where
  "gate_of (Print s) = [Printed s]"
| "gate_of NoGradEnter = [TestRuns]"
| "gate_of (AddScalar writer tag v s) = [ScalarWritten tag s]"
| "gate_of c = []"

section \<open>A small instance\<close>

text \<open>
  A world with one network parameter and its gradient, tensors that are lists of
  integers, and libraries that are simple enough to run by hand. The theorems below
  are stated for all instances; this one serves to run the definitions.
\<close>

definition toy_model :: "(int \<times> int, string, int list, unit) module" where
  "toy_model =
     \<lparr>m_zero_grad = (\<lambda>(p, gr). (Inr (), (p, 0))),
      m_call = (\<lambda>g support_x support_y query_x (p, gr).
                  (Inr (map (\<lambda>x. x * p) query_x), (p, gr))),
      m_parameters = (\<lambda>w. (Inr (), w)),
      m_cuda = (\<lambda>w. (Inr (), w))\<rparr>"

definition toy_optimizer :: "(int \<times> int, string) optimizer" where
  "toy_optimizer =
     \<lparr>o_zero_grad = (\<lambda>(p, gr). (Inr (), (p, 0))),
      o_step = (\<lambda>(p, gr). (Inr (), (p - gr, gr)))\<rparr>"

definition toy_torch :: "(int \<times> int, string, int list) torch" where
  "toy_torch =
     \<lparr>tensor_to = (\<lambda>device x. Inr x),
      detach_item = (\<lambda>l. Inr (Float (of_int (sum_list l)))),
      loss_backward = (\<lambda>l (p, gr). (Inr (), (p, gr + sum_list l))),
      torch_argmax = (\<lambda>l dim. Inr l),
      tensor_eq = (\<lambda>a b. Inr (map2 (\<lambda>x y. x = y) a b))\<rparr>"

definition toy_loss_fn :: "int list \<Rightarrow> int list \<Rightarrow> string + int list" where
  "toy_loss_fn logits query_y = Inr (map2 (\<lambda>x y. x - y) logits query_y)"

definition toy_batch :: "int list batch" where
  "toy_batch = \<lparr>b_train = ([1], [0]), b_test = ([1, 2], [1, 0])\<rparr>"

definition toy_env :: "(int \<times> int, string, int list, unit, string, split) env" where
  "toy_env =
     \<lparr>SummaryWriter = (\<lambda>d w. (Inr d, w)),
      add_scalar = (\<lambda>writer tag v s w. (Inr (), w)),
      os_path_join = (\<lambda>a b. a @ ''/'' @ b),
      os_path_abspath = (\<lambda>p. ''/work''),
      os_path_exists = (\<lambda>p w. False),
      omniglot = (\<lambda>d shots ways shuffle sp download w. (Inr sp, w)),
      BatchMetaDataLoader = (\<lambda>ds bs shuffle workers w. (Inr (\<lambda>t. [Inr toy_batch]), w)),
      ProtoNetwork = (\<lambda>a b w. (Inr toy_model, w)),
      Adam = (\<lambda>ps lr w. (Inr toy_optimizer, w)),
      CrossEntropyLoss = (\<lambda>w. (Inr toy_loss_fn, w)),
      cuda_is_available = (\<lambda>w. False),
      torch_lib = toy_torch\<rparr>"

definition toy_config :: config where
  "toy_config =
     \<lparr>num_classes = 5, num_samples = 1, num_batches = 0, batch_size = 2, epochs = 2,
      log_every = 2, path = ''/work/run''\<rparr>"

section \<open>Properties\<close>

subsection \<open>Sequencing, and each loop as a list traversal\<close>

lemma thenM_returnM_left: "thenM (returnM a) f = f a"
  by (simp add: thenM_def returnM_def fun_eq_iff split: prod.splits)

lemma thenM_assoc: "thenM (thenM m f) h = thenM m (\<lambda>a. thenM (f a) h)"
  by (auto simp add: thenM_def fun_eq_iff split: prod.splits sum.splits)

lemma thenM_raise: "thenM (raise x) f = raise x"
  by (simp add: thenM_def raise_def fun_eq_iff)

lemma train_loop_mapM:
  "train_loop device T model loss_fn optimizer n batch_idx ys avg_loss =
     thenM (mapM (train_iter device T model loss_fn optimizer) (take (iterations n batch_idx) ys))
       (\<lambda>ls. returnM (avg_loss @ ls))"
proof (induction ys arbitrary: batch_idx avg_loss)
  case Nil
  show ?case by (simp add: thenM_returnM_left)
next
  case (Cons y ys)
  show ?case
  proof (cases "batch_idx > n")
    case True
    then show ?thesis
      by (simp add: iterations_def train_iter_def thenM_assoc thenM_returnM_left)
  next
    case False
    then have k: "iterations n batch_idx = Suc (iterations n (batch_idx + 1))"
      by (auto simp: iterations_def)
    show ?thesis using False
      by (simp add: k Cons.IH train_iter_def thenM_assoc thenM_returnM_left)
  qed
qed

lemma test_loop_mapM:
  "test_loop device T model loss_fn n batch_idx ys accuracy_list avg_loss =
     thenM (mapM (test_iter device T model loss_fn) (take (iterations n batch_idx) ys))
       (\<lambda>rs. returnM (accuracy_list @ map fst rs, avg_loss @ map snd rs))"
proof (induction ys arbitrary: batch_idx accuracy_list avg_loss)
  case Nil
  show ?case by (simp add: thenM_returnM_left)
next
  case (Cons y ys)
  show ?case
  proof (cases "batch_idx > n")
    case True
    then show ?thesis
      by (simp add: iterations_def test_iter_def thenM_assoc thenM_returnM_left split_def)
  next
    case False
    then have k: "iterations n batch_idx = Suc (iterations n (batch_idx + 1))"
      by (auto simp: iterations_def)
    show ?thesis using False
      by (simp add: k Cons.IH test_iter_def thenM_assoc thenM_returnM_left split_def)
  qed
qed

subsection \<open>What a run shows\<close>

lemma marks_append [simp]: "marks \<pi> (t @ u) = marks \<pi> t @ marks \<pi> u"
  by (simp add: marks_def)

lemma marks_Nil [simp]: "marks \<pi> [] = []"
  by (simp add: marks_def)

lemma marks_Cons [simp]: "marks \<pi> (ev # t) = \<pi> (fst ev) @ marks \<pi> t"
  by (simp add: marks_def)

lemma marks_all: "marks (\<lambda>c. [c]) t = map fst t"
  by (induction t) simp_all

lemma marks_only: "marks (only P) t = filter P (map fst t)"
  by (induction t) (simp_all add: only_def)

lemma follows_returnM: "follows \<pi> g w (returnM a) []"
  by (simp add: follows_def returnM_def)

lemma follows_raise: "follows \<pi> g w (raise x) xs"
  by (simp add: follows_def raise_def)

lemma follows_call: "follows \<pi> g w (call c op) (\<pi> c)"
  by (auto simp: follows_def call_def split: prod.splits sum.splits)

lemma follows_callp: "follows \<pi> g w (callp c r) (\<pi> c)"
  by (simp add: callp_def follows_call)

lemma follows_emit: "follows \<pi> g w (emit c) (\<pi> c)"
  by (simp add: follows_def emit_def)

lemma follows_query: "follows \<pi> g w (query c q) (\<pi> (c (q w)))"
  by (simp add: follows_def query_def)

lemma follows_thenM:
  assumes "follows \<pi> g w m xs"
    and "\<And>a t w1. m g w = (Inr a, t, w1) \<Longrightarrow> follows \<pi> g w1 (f a) ys"
    and "zs = xs @ ys"
  shows "follows \<pi> g w (thenM m f) zs"
proof -
  obtain r t w1 where m: "m g w = (r, t, w1)" by (cases "m g w")
  from assms(1) m have 1: "prefix (marks \<pi> t) xs" "isl r \<or> marks \<pi> t = xs"
    by (simp_all add: follows_def)
  show ?thesis
  proof (cases r)
    case (Inl x)
    with m 1 show ?thesis by (simp add: follows_def thenM_def assms(3))
  next
    case (Inr a)
    obtain r2 t2 w2 where f: "f a g w1 = (r2, t2, w2)" by (cases "f a g w1")
    from assms(2) [of a t w1] m Inr f
    have 2: "prefix (marks \<pi> t2) ys" "isl r2 \<or> marks \<pi> t2 = ys"
      by (simp_all add: follows_def)
    from Inr 1 have "marks \<pi> t = xs" by simp
    with m f Inr 2 show ?thesis by (auto simp add: follows_def thenM_def assms(3))
  qed
qed

lemma follows_mapM:
  assumes "\<And>x w. follows \<pi> g w (f x) bm"
  shows "follows \<pi> g w (mapM f xs) (concat (replicate (length xs) bm))"
proof (induction xs arbitrary: w)
  case Nil
  show ?case by (simp add: follows_returnM)
next
  case (Cons x xs)
  have "follows \<pi> g w' (thenM (mapM f xs) (\<lambda>ys. returnM (x' # ys)))
          (concat (replicate (length xs) bm))" for x' w'
    by (rule follows_thenM [OF Cons.IH follows_returnM]) simp
  then show ?case
    by (auto intro!: follows_thenM [OF assms])
qed

lemma follows_no_grad:
  assumes "follows \<pi> False w m xs" and "\<pi> NoGradExit = []" and "zs = \<pi> NoGradEnter @ xs"
  shows "follows \<pi> g w (no_grad m) zs"
  using assms by (auto simp: follows_def no_grad_def split: prod.splits)

lemma follows_model_forward:
  "follows \<pi> g w (model_forward model a b c) (\<pi> (ModelCall g))"
  by (auto simp: follows_def model_forward_def thenM_def grad_mode_def call_def
      split: prod.splits sum.splits)

lemma follows_train_iter:
  "follows \<pi> g w (train_iter device T model loss_fn optimizer y)
     (concat (map \<pi> (train_calls device g)))"
  unfolding train_iter_def train_body_def train_calls_def
  by (auto intro!: follows_thenM follows_callp follows_call follows_model_forward
      follows_returnM split: prod.splits)

lemma follows_test_iter:
  "follows \<pi> False w (test_iter device T model loss_fn y)
     (concat (map \<pi> (test_calls device)))"
  unfolding test_iter_def test_body_def test_calls_def
  by (auto intro!: follows_thenM follows_callp follows_call follows_model_forward
      follows_returnM split: prod.splits)

lemma follows_train:
  "follows \<pi> g w (train device T dl model loss_fn optimizer n)
     (concat (replicate (min (length dl) (iterations n 0))
        (concat (map \<pi> (train_calls device g)))))"
proof -
  have 1: "follows \<pi> g w
     (mapM (train_iter device T model loss_fn optimizer) (take (iterations n 0) dl))
     (concat (replicate (min (length dl) (iterations n 0))
        (concat (map \<pi> (train_calls device g)))))"
    using follows_mapM [of \<pi> g "train_iter device T model loss_fn optimizer" _ w
        "take (iterations n 0) dl", OF follows_train_iter]
    by (simp add: min.commute)
  show ?thesis
    unfolding train_def train_loop_mapM thenM_assoc thenM_returnM_left
    by (rule follows_thenM [OF 1 follows_returnM]) simp
qed

lemma follows_test:
  assumes "\<pi> NoGradExit = []"
  shows "follows \<pi> g w (test device T dl model loss_fn n)
     (\<pi> NoGradEnter @ concat (replicate (min (length dl) (iterations n 0))
        (concat (map \<pi> (test_calls device)))))"
proof -
  have 1: "follows \<pi> False w
     (mapM (test_iter device T model loss_fn) (take (iterations n 0) dl))
     (concat (replicate (min (length dl) (iterations n 0))
        (concat (map \<pi> (test_calls device)))))"
    using follows_mapM [of \<pi> False "test_iter device T model loss_fn" _ w
        "take (iterations n 0) dl", OF follows_test_iter]
    by (simp add: min.commute)
  have 2: "follows \<pi> False w
     (thenM (mapM (test_iter device T model loss_fn) (take (iterations n 0) dl))
        (\<lambda>rs. returnM ([] @ map fst rs, [] @ map snd rs)))
     (concat (replicate (min (length dl) (iterations n 0))
        (concat (map \<pi> (test_calls device)))))"
    by (rule follows_thenM [OF 1 follows_returnM]) simp
  show ?thesis
    unfolding test_def test_loop_mapM
    by (rule follows_thenM [OF follows_no_grad [OF 2 assms refl]])
       (auto intro: follows_returnM)
qed

subsection \<open>Exceptions are not caught\<close>

lemma propagates_returnM: "propagates Z (returnM a)"
  by (simp add: propagates_def returnM_def unhandled_def)

lemma propagates_grad_mode: "propagates Z grad_mode"
  by (simp add: propagates_def grad_mode_def unhandled_def)

lemma propagates_emit: "propagates Z (emit c)"
  by (simp add: propagates_def emit_def unhandled_def)

lemma propagates_query: "propagates Z (query c q)"
  by (simp add: propagates_def query_def unhandled_def)

lemma propagates_call: "propagates Z (call c op)"
  by (auto simp: propagates_def call_def unhandled_def split: prod.splits sum.splits)

lemma propagates_callp: "propagates Z (callp c r)"
  by (simp add: callp_def propagates_call)

lemma propagates_py_mod: "propagates (b = 0) (py_mod a b)"
  by (simp add: propagates_def py_mod_def raise_def returnM_def unhandled_def)

lemma propagates_thenM:
  assumes "propagates Z m" and "\<And>a. propagates Z (f a)"
  shows "propagates Z (thenM m f)"
  unfolding propagates_def
proof (intro allI)
  fix g w
  obtain r t w1 where m: "m g w = (r, t, w1)" by (cases "m g w")
  from assms(1) have "case m g w of (r, t, w') \<Rightarrow> unhandled r t \<and> (r = Inl ZeroDivisionError \<longrightarrow> Z)"
    by (simp add: propagates_def)
  with m have 1: "unhandled r t" "r = Inl ZeroDivisionError \<longrightarrow> Z"
    by simp_all
  show "case thenM m f g w of (r, t, w') \<Rightarrow> unhandled r t \<and> (r = Inl ZeroDivisionError \<longrightarrow> Z)"
  proof (cases r)
    case (Inl x)
    with m 1 show ?thesis by (simp add: thenM_def unhandled_def)
  next
    case (Inr a)
    obtain r2 t2 w2 where f: "f a g w1 = (r2, t2, w2)" by (cases "f a g w1")
    from assms(2) [of a] have "case f a g w1 of (r, t, w') \<Rightarrow> unhandled r t \<and> (r = Inl ZeroDivisionError \<longrightarrow> Z)"
      by (simp add: propagates_def)
    with f have 2: "unhandled r2 t2" "r2 = Inl ZeroDivisionError \<longrightarrow> Z"
      by simp_all
    from 1 2 Inr have "unhandled r2 (t @ t2)"
      by (auto simp: unhandled_def)
    with m f Inr 2 show ?thesis by (simp add: thenM_def)
  qed
qed

lemma propagates_no_grad:
  assumes "propagates Z m"
  shows "propagates Z (no_grad m)"
  unfolding propagates_def
proof (intro allI)
  fix g w
  obtain r t w1 where m: "m False w = (r, t, w1)" by (cases "m False w")
  from assms have "case m False w of (r, t, w') \<Rightarrow> unhandled r t \<and> (r = Inl ZeroDivisionError \<longrightarrow> Z)"
    by (simp add: propagates_def)
  with m have "unhandled r t" "r = Inl ZeroDivisionError \<longrightarrow> Z" by simp_all
  with m show "case no_grad m g w of (r, t, w') \<Rightarrow> unhandled r t \<and> (r = Inl ZeroDivisionError \<longrightarrow> Z)"
    by (auto simp: no_grad_def unhandled_def)
qed

lemma propagates_weaken:
  assumes "propagates False m"
  shows "propagates Z m"
  unfolding propagates_def
proof (intro allI)
  fix g w
  from assms have "case m g w of (r, t, w') \<Rightarrow> unhandled r t \<and> (r = Inl ZeroDivisionError \<longrightarrow> False)"
    by (simp add: propagates_def)
  then show "case m g w of (r, t, w') \<Rightarrow> unhandled r t \<and> (r = Inl ZeroDivisionError \<longrightarrow> Z)"
    by (auto split: prod.splits)
qed

lemma propagates_mapM:
  assumes "\<And>x. propagates Z (f x)"
  shows "propagates Z (mapM f xs)"
  by (induction xs) (auto intro!: propagates_thenM propagates_returnM assms)

lemma propagates_model_forward: "propagates Z (model_forward model a b c)"
  unfolding model_forward_def by (intro propagates_thenM propagates_grad_mode propagates_call)

lemma propagates_train_iter: "propagates Z (train_iter device T model loss_fn optimizer y)"
  unfolding train_iter_def train_body_def
  by (auto intro!: propagates_thenM propagates_callp propagates_call propagates_model_forward
      propagates_returnM split: prod.splits)

lemma propagates_test_iter: "propagates Z (test_iter device T model loss_fn y)"
  unfolding test_iter_def test_body_def
  by (auto intro!: propagates_thenM propagates_callp propagates_call propagates_model_forward
      propagates_returnM split: prod.splits)

lemma propagates_train: "propagates Z (train device T dl model loss_fn optimizer n)"
  unfolding train_def train_loop_mapM
  by (intro propagates_thenM propagates_mapM propagates_train_iter propagates_returnM)

lemma propagates_test: "propagates Z (test device T dl model loss_fn n)"
  unfolding test_def test_loop_mapM
  by (auto intro!: propagates_thenM propagates_no_grad propagates_mapM propagates_test_iter
      propagates_returnM)

lemma propagates_log_metrics: "propagates Z (log_metrics E writer a b c t)"
  unfolding log_metrics_def
  by (intro propagates_thenM propagates_emit propagates_call)

lemma propagates_epochs_loop:
  "propagates (log_every config = 0)
     (epochs_loop device E config writer trl tel model optimizer loss_fn ts)"
proof (induction ts)
  case Nil
  show ?case by (simp add: propagates_returnM)
next
  case (Cons t ts)
  show ?case
    unfolding epochs_loop.simps
    by (auto intro!: propagates_thenM propagates_emit propagates_train propagates_py_mod
        propagates_test propagates_log_metrics propagates_returnM Cons.IH)
qed

lemma propagates_main: "propagates (log_every config = 0) (main device E config)"
  unfolding main_def Let_def
  by (auto intro!: propagates_thenM propagates_call propagates_query propagates_returnM
      propagates_epochs_loop)

subsection \<open>What \<^verbatim>\<open>test\<close> leaves alone\<close>

lemma keeps_returnM: "keeps obs g (returnM a)"
  by (simp add: keeps_def returnM_def)

lemma keeps_callp: "keeps obs g (callp c r)"
  by (auto simp: keeps_def callp_def call_def split: sum.splits)

lemma keeps_call:
  assumes "\<And>w. obs (snd (op w)) = obs w"
  shows "keeps obs g (call c op)"
  unfolding keeps_def
proof (intro allI)
  fix w
  from assms [of w] show "obs (snd (snd (call c op g w))) = obs w"
    by (cases "op w") (auto simp: call_def split: sum.splits)
qed

lemma keeps_thenM:
  assumes "keeps obs g m" and "\<And>a. keeps obs g (f a)"
  shows "keeps obs g (thenM m f)"
  unfolding keeps_def
proof (intro allI)
  fix w
  obtain r t w1 where m: "m g w = (r, t, w1)" by (cases "m g w")
  from assms(1) have "obs (snd (snd (m g w))) = obs w"
    by (simp add: keeps_def)
  with m have 1: "obs w1 = obs w" by simp
  show "obs (snd (snd (thenM m f g w))) = obs w"
  proof (cases r)
    case (Inl x)
    with m 1 show ?thesis by (simp add: thenM_def)
  next
    case (Inr a)
    obtain r2 t2 w2 where f: "f a g w1 = (r2, t2, w2)" by (cases "f a g w1")
    from assms(2) [of a] have "obs (snd (snd (f a g w1))) = obs w1"
      by (simp add: keeps_def)
    with m f Inr 1 show ?thesis by (simp add: thenM_def)
  qed
qed

lemma keeps_no_grad:
  assumes "keeps obs False m"
  shows "keeps obs g (no_grad m)"
  unfolding keeps_def
proof (intro allI)
  fix w
  from assms have "obs (snd (snd (m False w))) = obs w"
    by (simp add: keeps_def)
  then show "obs (snd (snd (no_grad m g w))) = obs w"
    by (cases "m False w") (simp add: no_grad_def)
qed

lemma keeps_mapM:
  assumes "\<And>x. keeps obs g (f x)"
  shows "keeps obs g (mapM f xs)"
  by (induction xs) (auto intro!: keeps_thenM keeps_returnM assms)

lemma keeps_model_forward:
  assumes "\<And>a b c w. obs (snd (m_call model g a b c w)) = obs w"
  shows "keeps obs g (model_forward model a b c)"
  unfolding keeps_def
proof (intro allI)
  fix w
  from assms [of a b c w] show "obs (snd (snd (model_forward model a b c g w))) = obs w"
    by (cases "m_call model g a b c w")
       (auto simp: model_forward_def thenM_def grad_mode_def call_def split: sum.splits)
qed

lemma keeps_test_iter:
  assumes "\<And>w. obs (snd (m_zero_grad model w)) = obs w"
    and "\<And>a b c w. obs (snd (m_call model False a b c w)) = obs w"
  shows "keeps obs False (test_iter device T model loss_fn y)"
  unfolding test_iter_def test_body_def
  by (auto intro!: keeps_thenM keeps_callp keeps_call keeps_model_forward keeps_returnM assms
      split: prod.splits)

lemma keeps_test:
  assumes "\<And>w. obs (snd (m_zero_grad model w)) = obs w"
    and "\<And>a b c w. obs (snd (m_call model False a b c w)) = obs w"
  shows "keeps obs g (test device T dl model loss_fn n)"
  unfolding test_def test_loop_mapM
  by (auto intro!: keeps_thenM keeps_no_grad keeps_mapM keeps_test_iter keeps_returnM assms)

subsection \<open>What \<^verbatim>\<open>main\<close> shows\<close>

lemma quiet_train_calls: "quiet \<pi> \<Longrightarrow> concat (map \<pi> (train_calls device g)) = []"
  by (simp add: quiet_def train_calls_def)

lemma quiet_test_calls: "quiet \<pi> \<Longrightarrow> concat (map \<pi> (test_calls device)) = []"
  by (simp add: quiet_def test_calls_def)

lemma concat_replicate_Nil: "concat (replicate k []) = []"
  by (induction k) simp_all

lemma follows_train_quiet:
  assumes "quiet \<pi>"
  shows "follows \<pi> g w (train device T dl model loss_fn optimizer n) []"
  using follows_train [of \<pi> g w device T dl model loss_fn optimizer n]
  by (simp add: quiet_train_calls [OF assms] concat_replicate_Nil)

lemma follows_test_quiet:
  assumes "quiet \<pi>"
  shows "follows \<pi> g w (test device T dl model loss_fn n) (\<pi> NoGradEnter)"
proof -
  from assms have "\<pi> NoGradExit = []" by (simp add: quiet_def)
  from follows_test [of \<pi>, OF this, of g w device T dl model loss_fn n] show ?thesis
    by (simp add: quiet_test_calls [OF assms] concat_replicate_Nil)
qed

lemma follows_log_metrics:
  assumes "quiet \<pi>" and "\<And>tag v s. \<pi> (AddScalar writer tag v s) = sc tag s"
  shows "follows \<pi> g w (log_metrics E writer a b c t)
     (sc ''Train Loss'' t @ sc ''Test Loss'' t @ sc ''Meta-Test Accuracy'' t)"
proof -
  from assms(1) have pm: "\<pi> (PrintMetrics a b c) = []" by (simp add: quiet_def)
  show ?thesis
    unfolding log_metrics_def
    by (rule follows_thenM [OF follows_emit], rule follows_thenM [OF follows_call],
        rule follows_thenM [OF follows_call], rule follows_call)
       (simp_all add: pm assms(2))
qed

lemma follows_epochs_loop:
  assumes q: "quiet \<pi>" and sc: "\<And>tag v s. \<pi> (AddScalar writer tag v s) = sc tag s"
  shows "follows \<pi> g w
     (epochs_loop device E config writer trl tel model optimizer loss_fn ts)
     (concat (map (epoch_marks \<pi> sc config) ts))"
proof (induction ts arbitrary: w)
  case Nil
  show ?case by (simp add: follows_returnM)
next
  case (Cons t ts)
  let ?rest = "concat (map (epoch_marks \<pi> sc config) ts)"
  have gate: "follows \<pi> g w'
     (thenM (py_mod t (log_every config)) (\<lambda>r.
      thenM (if r = 0
             then thenM (test device (torch_lib E) (tel t) model loss_fn (num_batches config))
                    (\<lambda>(test_accuracy, test_loss).
                       log_metrics E writer train_loss test_loss test_accuracy t)
             else returnM ()) (\<lambda>_.
      epochs_loop device E config writer trl tel model optimizer loss_fn ts)))
     ((if logs_at config t
       then \<pi> NoGradEnter @ sc ''Train Loss'' t @ sc ''Test Loss'' t @
            sc ''Meta-Test Accuracy'' t
       else []) @ ?rest)" for w' train_loss
  proof (cases "log_every config = 0")
    case True
    then show ?thesis
      by (simp add: py_mod_def thenM_raise follows_raise)
  next
    case False
    show ?thesis
    proof (cases "t mod log_every config = 0")
      case True
      have inner: "follows \<pi> g w''
         (thenM (test device (torch_lib E) (tel t) model loss_fn (num_batches config))
            (\<lambda>(test_accuracy, test_loss).
               log_metrics E writer train_loss test_loss test_accuracy t))
         (\<pi> NoGradEnter @ sc ''Train Loss'' t @ sc ''Test Loss'' t @
          sc ''Meta-Test Accuracy'' t)" for w''
        by (rule follows_thenM [OF follows_test_quiet [OF q]])
           (auto intro!: follows_log_metrics [OF q sc])
      have "follows \<pi> g w'
         (thenM (thenM (test device (torch_lib E) (tel t) model loss_fn (num_batches config))
            (\<lambda>(test_accuracy, test_loss).
               log_metrics E writer train_loss test_loss test_accuracy t)) (\<lambda>_.
          epochs_loop device E config writer trl tel model optimizer loss_fn ts))
         ((\<pi> NoGradEnter @ sc ''Train Loss'' t @ sc ''Test Loss'' t @
          sc ''Meta-Test Accuracy'' t) @ ?rest)"
        by (rule follows_thenM [OF inner Cons.IH refl])
      with True False show ?thesis
        by (simp add: py_mod_def thenM_returnM_left logs_at_def)
    next
      case nolog: False
      have "follows \<pi> g w'
         (thenM (returnM ()) (\<lambda>_.
          epochs_loop device E config writer trl tel model optimizer loss_fn ts)) ?rest"
        by (simp add: thenM_returnM_left Cons.IH)
      with nolog False show ?thesis
        by (simp add: py_mod_def thenM_returnM_left logs_at_def)
    qed
  qed
  have e: "epoch_marks \<pi> sc config t =
      \<pi> (Print (''Epoch '' @ str_int (t + 1) @ [CHR 0x0A] @
                ''-------------------------------'')) @
      (if logs_at config t
       then \<pi> NoGradEnter @ sc ''Train Loss'' t @ sc ''Test Loss'' t @
            sc ''Meta-Test Accuracy'' t
       else [])"
    by (simp add: epoch_marks_def banner_def)
  show ?case
    unfolding epochs_loop.simps list.map concat.simps e
    by (rule follows_thenM [OF follows_emit follows_thenM [OF follows_train_quiet [OF q] gate refl]])
       simp
qed

lemma str_int_1: "str_int 1 = ''1''"
  by (simp add: str_int_def str_nat.simps)

lemma logdir_eq:
  "path config @ ''/'' @ ''model'' @ ''/_'' @ str_int (num_classes config) @ ''_'' @ str_int 1 =
   logdir_of config"
  by (simp add: logdir_of_def str_int_1)

lemma call_Inr:
  "call c op g w = (Inr a, t, w') \<longleftrightarrow> op w = (Inr a, w') \<and> t = [(c, None)]"
  by (cases "op w") (auto simp: call_def split: sum.splits)

lemma query_Inr:
  "query c q g w = (Inr a, t, w') \<longleftrightarrow> a = q w \<and> t = [(c (q w), None)] \<and> w' = w"
  by (auto simp: query_def)

lemma if_not: "(if b then False else True) = (\<not> b)"
  by simp

lemma follows_cuda:
  assumes "quiet \<pi>"
  shows "follows \<pi> g w (if b then call ModelCuda op else returnM ()) []"
proof -
  from assms have "\<pi> ModelCuda = []" by (simp add: quiet_def)
  with follows_call [of \<pi> g w ModelCuda op] show ?thesis
    by (simp add: follows_returnM)
qed

lemma follows_main_tail:
  assumes q: "quiet \<pi>"
    and loop: "\<And>w trainloader testloader model optimizer loss_fn.
      follows \<pi> g w
        (epochs_loop device E config writer trainloader testloader model optimizer loss_fn ts)
        xs"
  shows "follows \<pi> g w
     (thenM (call (Omniglot dp shot way True MetaTrain d) op1) (\<lambda>train_dataset.
      thenM (call (Omniglot dp shot way True MetaVal d) op2) (\<lambda>test_dataset.
      thenM (call (NewBatchMetaDataLoader bs True 4)
               (BatchMetaDataLoader E train_dataset bs True 4)) (\<lambda>trainloader.
      thenM (call (NewBatchMetaDataLoader bs True 4)
               (BatchMetaDataLoader E test_dataset bs True 4)) (\<lambda>testloader.
      thenM (call (NewProtoNetwork 1 32) (ProtoNetwork E 1 32)) (\<lambda>model.
      thenM (call ModelParameters (m_parameters model)) (\<lambda>parameters.
      thenM (call (NewAdam (Float (1 / 10000))) (Adam E parameters (Float (1 / 10000))))
        (\<lambda>optimizer.
      thenM (call NewCrossEntropyLoss (CrossEntropyLoss E)) (\<lambda>loss_fn.
      thenM (query CudaIsAvailable (cuda_is_available E)) (\<lambda>available.
      thenM (if available then call ModelCuda (m_cuda model) else returnM ()) (\<lambda>_.
      epochs_loop device E config writer trainloader testloader model optimizer loss_fn
        ts)))))))))))
     (\<pi> (Omniglot dp shot way True MetaTrain d) @ \<pi> (Omniglot dp shot way True MetaVal d) @
      xs)"
proof -
  from q have qs: "\<pi> (NewBatchMetaDataLoader bs True 4) = []" "\<pi> (NewProtoNetwork 1 32) = []"
    "\<pi> ModelParameters = []" "\<pi> (NewAdam (Float (1 / 10000))) = []"
    "\<pi> NewCrossEntropyLoss = []" "\<And>b. \<pi> (CudaIsAvailable b) = []"
    by (simp_all add: quiet_def)
  show ?thesis
    by (rule follows_thenM [OF follows_call], rule follows_thenM [OF follows_call],
        rule follows_thenM [OF follows_call], rule follows_thenM [OF follows_call],
        rule follows_thenM [OF follows_call], rule follows_thenM [OF follows_call],
        rule follows_thenM [OF follows_call], rule follows_thenM [OF follows_call],
        rule follows_thenM [OF follows_query], rule follows_thenM [OF follows_cuda [OF q]],
        rule loop)
       (simp_all add: qs)
qed

lemma follows_main_loop:
  assumes q: "quiet \<pi>"
    and sw: "SummaryWriter E (logdir_of config) w = (Inr writer, w1)"
    and loop: "\<And>w trainloader testloader model optimizer loss_fn.
      follows \<pi> g w
        (epochs_loop device E config writer trainloader testloader model optimizer loss_fn
           [0..epochs config - 1])
        xs"
  shows "follows \<pi> g w (main device E config)
     (\<pi> (NewSummaryWriter (logdir_of config)) @
      \<pi> (Omniglot (data_dir E config) (num_samples config) (num_classes config) True MetaTrain
           (\<not> os_path_exists E (omniglot_dir E config) w1)) @
      \<pi> (Omniglot (data_dir E config) (num_samples config) (num_classes config) True MetaVal
           (\<not> os_path_exists E (omniglot_dir E config) w1)) @
      xs)"
proof -
  from q have qe: "\<And>p b. \<pi> (OsPathExists p b) = []"
    by (simp add: quiet_def)
  have dir: "data_dir E config @ ''/omniglot'' = omniglot_dir E config"
    by (simp add: data_dir_def omniglot_dir_def)
  show ?thesis
    unfolding main_def Let_def logdir_eq data_dir_def [symmetric] os_pardir_def dir
    apply (rule follows_thenM [OF follows_call])
     apply (simp only: call_Inr sw prod.inject sum.inject)
     apply (elim conjE)
     apply hypsubst
     apply (rule follows_thenM [OF follows_query])
      apply (simp only: query_Inr)
      apply (elim conjE)
      apply hypsubst
      apply (simp only: if_not)
      apply (rule follows_main_tail [OF q loop])
     apply (rule refl)
    apply (simp add: qe)
    done
qed

lemma follows_main:
  assumes q: "quiet \<pi>" and sc: "\<And>tag v s. \<pi> (AddScalar writer tag v s) = sc tag s"
    and sw: "SummaryWriter E (logdir_of config) w = (Inr writer, w1)"
  shows "follows \<pi> g w (main device E config)
     (\<pi> (NewSummaryWriter (logdir_of config)) @
      \<pi> (Omniglot (data_dir E config) (num_samples config) (num_classes config) True MetaTrain
           (\<not> os_path_exists E (omniglot_dir E config) w1)) @
      \<pi> (Omniglot (data_dir E config) (num_samples config) (num_classes config) True MetaVal
           (\<not> os_path_exists E (omniglot_dir E config) w1)) @
      concat (map (epoch_marks \<pi> sc config) [0..epochs config - 1]))"
  by (rule follows_main_loop [OF q sw follows_epochs_loop [OF q sc]])

lemma main_writer_raises:
  assumes "SummaryWriter E (logdir_of config) w = (Inl e, w1)"
  shows "main device E config g w =
     (Inl (LibraryError e), [(NewSummaryWriter (logdir_of config), Some e)], w1)"
  unfolding main_def Let_def logdir_eq
  by (simp add: thenM_def call_def assms)

text \<open>With a zero \<^verbatim>\<open>log_every\<close> the first epoch that is run ends the loop.\<close>

lemma follows_py_mod_zero: "follows \<pi> g w (thenM (py_mod t 0) F) []"
  by (simp add: py_mod_def thenM_raise follows_raise)

lemma follows_epochs_loop_zero:
  assumes q: "quiet \<pi>" and z: "log_every config = 0"
  shows "follows \<pi> g w
     (epochs_loop device E config writer trl tel model optimizer loss_fn (t # ts))
     (\<pi> (Print (banner t)))"
  unfolding epochs_loop.simps z
  by (rule follows_thenM [OF follows_emit
        follows_thenM [OF follows_train_quiet [OF q] follows_py_mod_zero refl]])
     (simp add: banner_def)

lemma thenM_never_returns:
  assumes "\<And>a w. isl (fst (f a g w))"
  shows "isl (fst (thenM m f g w))"
proof (cases "m g w")
  case (fields r t w1)
  show ?thesis
  proof (cases r)
    case (Inl x)
    with fields show ?thesis by (simp add: thenM_def)
  next
    case (Inr a)
    with fields assms [of a w1] show ?thesis
      by (cases "f a g w1") (simp add: thenM_def)
  qed
qed

lemma epochs_loop_zero_raises:
  assumes "log_every config = 0"
  shows "isl (fst (epochs_loop device E config writer trl tel model optimizer loss_fn (t # ts)
                     g w))"
  unfolding epochs_loop.simps
  by (rule thenM_never_returns, rule thenM_never_returns)
     (simp add: assms py_mod_def thenM_raise, simp add: raise_def)

lemma main_zero_raises:
  assumes "log_every config = 0" and "1 \<le> epochs config"
  shows "isl (fst (main device E config g w))"
proof -
  from assms(2) have "[0..epochs config - 1] = 0 # [1..epochs config - 1]"
    by (simp add: upto_rec1)
  then show ?thesis
    unfolding main_def Let_def
    by (simp only:) (intro thenM_never_returns epochs_loop_zero_raises [OF assms(1)])
qed

subsection \<open>What \<^verbatim>\<open>train\<close> and \<^verbatim>\<open>test\<close> return\<close>












subsection \<open>Runs of the small instance\<close>

lemma toy_train:
  "train ''cpu'' toy_torch [Inr toy_batch, Inr toy_batch, Inr toy_batch] toy_model toy_loss_fn
     toy_optimizer 0 True (1, 0) =
   (Inr (Float (- 1)),
    map (\<lambda>c. (c, None))
      (train_calls ''cpu'' True @ train_calls ''cpu'' True :: string call list),
    (3, - 4))"
  by code_simp

lemma toy_test:
  "test ''cpu'' toy_torch [Inr toy_batch, Inr toy_batch, Inr toy_batch] toy_model toy_loss_fn
     0 True (1, 0) =
   (Inr (Float (1 / 2), Float 2),
    map (\<lambda>c. (c, None))
      ([NoGradEnter] @ test_calls ''cpu'' @ test_calls ''cpu'' @ [NoGradExit]
        :: string call list),
    (1, 0))"
  by code_simp

lemma toy_train_raises:
  "train ''cpu'' toy_torch [Inr toy_batch, Inl ''boom''] toy_model toy_loss_fn
     toy_optimizer 0 True (1, 0) =
   (Inl (LibraryError ''boom''),
    map (\<lambda>c. (c, None)) (train_calls ''cpu'' True :: string call list) @
      [(LoaderNext, Some ''boom'')],
    (- 1, 2))"
  by code_simp



lemma toy_main_zero:
  "fst (main ''cpu'' toy_env (toy_config\<lparr>log_every := 0\<rparr>) True (1, 0)) = Inl ZeroDivisionError"
  by code_simp

lemma toy_writer:
  "SummaryWriter toy_env (logdir_of toy_config) w = (Inr ''/work/run/model/_5_1'', w)"
proof -
  have "str_int 5 = ''5''"
    by (simp add: str_int_def str_nat.simps)
  then show ?thesis
    by (simp add: toy_env_def toy_config_def logdir_of_def)
qed

lemma toy_main_returns: "fst (main ''cpu'' toy_env toy_config True (1, 0)) = Inr ()"
  by code_simp

lemma toy_main_zero_clean:
  "\<forall>ev \<in> set (fst (snd (main ''cpu'' toy_env (toy_config\<lparr>log_every := 0\<rparr>) True (1, 0)))).
     snd ev = None"
  by code_simp

lemma concat_replicate_single: "concat (replicate k [x]) = replicate k x"
  by (induction k) simp_all

lemma iterations_0: "0 \<le> n \<Longrightarrow> iterations n 0 = nat n + 2"
  by (simp add: iterations_def)

subsection \<open>The projections are quiet\<close>

lemma quiet_only_omniglot: "quiet (only is_omniglot)"
  unfolding quiet_def
proof (intro allI impI)
  fix c :: "'a call"
  assume "\<not> loud c"
  then show "only is_omniglot c = []"
    by (cases c) (simp_all add: only_def)
qed

lemma quiet_scalar_of: "quiet scalar_of"
  unfolding quiet_def
proof (intro allI impI)
  fix c :: "'a call"
  assume "\<not> loud c"
  then show "scalar_of c = []"
    by (cases c) simp_all
qed

lemma quiet_gate_of: "quiet gate_of"
  unfolding quiet_def
proof (intro allI impI)
  fix c :: "'a call"
  assume "\<not> loud c"
  then show "gate_of c = []"
    by (cases c) simp_all
qed

lemma concat_map_Nil: "concat (map (\<lambda>x. []) xs) = []"
  by (induction xs) simp_all

lemma concat_map_if_filter:
  "concat (map (\<lambda>x. if P x then f x else []) xs) = concat (map f (filter P xs))"
  by (induction xs) simp_all

lemma logdir_of_eq:
  "path config @ ''/model/_'' @ str_int (num_classes config) @ ''_1'' = logdir_of config"
  by (simp add: logdir_of_def)

section \<open>The claims\<close>



text \<open>
  C2. For \<open>num_batches \<ge> 0\<close>, a call of \<^verbatim>\<open>train\<close> or \<^verbatim>\<open>test\<close> that returns has taken
  \<open>num_batches + 2\<close> batches from a loader that has that many, and all batches of a
  shorter loader: the break comes after the batch with index \<open>num_batches + 1\<close>. Counted
  are the items fetched from the loader and the last call of each loop body (the
  optimizer step in \<^verbatim>\<open>train\<close>, the comparison with the labels in \<^verbatim>\<open>test\<close>).
\<close>

theorem num_batches_plus_two_batches_taken:
  assumes "0 \<le> n"
  shows "(\<forall>l t w'. train device T dl model loss_fn optimizer n g w = (Inr l, t, w') \<longrightarrow>
            length (filter (\<lambda>c. c = LoaderNext) (map fst t)) = min (length dl) (nat n + 2) \<and>
            length (filter (\<lambda>c. c = OptimizerStep) (map fst t)) = min (length dl) (nat n + 2)) \<and>
         (\<forall>r t w'. test device T dl model loss_fn n g w = (Inr r, t, w') \<longrightarrow>
            length (filter (\<lambda>c. c = LoaderNext) (map fst t)) = min (length dl) (nat n + 2) \<and>
            length (filter (\<lambda>c. c = TensorEq) (map fst t)) = min (length dl) (nat n + 2))"
proof (intro conjI allI impI)
  fix l t w'
  assume run: "train device T dl model loss_fn optimizer n g w = (Inr l, t, w')"
  have shown: "marks (only P) t =
      concat (replicate (min (length dl) (nat n + 2))
        (concat (map (only P) (train_calls device g))))" for P
    using follows_train [of "only P" g w device T dl model loss_fn optimizer n] run assms
    by (simp add: follows_def iterations_0)
  from shown [of "\<lambda>c. c = LoaderNext"]
  show "length (filter (\<lambda>c. c = LoaderNext) (map fst t)) = min (length dl) (nat n + 2)"
    by (simp add: marks_only only_def train_calls_def concat_replicate_single)
  from shown [of "\<lambda>c. c = OptimizerStep"]
  show "length (filter (\<lambda>c. c = OptimizerStep) (map fst t)) = min (length dl) (nat n + 2)"
    by (simp add: marks_only only_def train_calls_def concat_replicate_single)
next
  fix r t w'
  assume run: "test device T dl model loss_fn n g w = (Inr r, t, w')"
  have shown: "marks (only P) t =
      only P NoGradEnter @
      concat (replicate (min (length dl) (nat n + 2))
        (concat (map (only P) (test_calls device))))"
    if "only P NoGradExit = []" for P
    using follows_test [of "only P", OF that, of g w device T dl model loss_fn n] run assms
    by (simp add: follows_def iterations_0)
  from shown [of "\<lambda>c. c = LoaderNext"]
  show "length (filter (\<lambda>c. c = LoaderNext) (map fst t)) = min (length dl) (nat n + 2)"
    by (simp add: marks_only only_def test_calls_def concat_replicate_single)
  from shown [of "\<lambda>c. c = TensorEq"]
  show "length (filter (\<lambda>c. c = TensorEq) (map fst t)) = min (length dl) (nat n + 2)"
    by (simp add: marks_only only_def test_calls_def concat_replicate_single)
qed

theorem num_batches_plus_two_batches_taken_witness:
  "(0::int) \<le> 0 \<and>
   (\<exists>l (t :: (string, string) event list) w'. train ''cpu'' toy_torch [Inr toy_batch, Inr toy_batch, Inr toy_batch] toy_model
        toy_loss_fn toy_optimizer 0 True (1, 0) = (Inr l, t, w') \<and>
      length (filter (\<lambda>c. c = LoaderNext) (map fst t)) = 2 \<and>
      length (filter (\<lambda>c. c = OptimizerStep) (map fst t)) = 2) \<and>
   (\<exists>r (t :: (string, string) event list) w'. test ''cpu'' toy_torch [Inr toy_batch, Inr toy_batch, Inr toy_batch] toy_model
        toy_loss_fn 0 True (1, 0) = (Inr r, t, w') \<and>
      length (filter (\<lambda>c. c = LoaderNext) (map fst t)) = 2 \<and>
      length (filter (\<lambda>c. c = TensorEq) (map fst t)) = 2)"
proof -
  have h: "(0::int) \<le> 0" by simp
  note inst = num_batches_plus_two_batches_taken [OF h, of "''cpu''" toy_torch
      "[Inr toy_batch, Inr toy_batch, Inr toy_batch]" toy_model toy_loss_fn toy_optimizer
      True "(1, 0)"]
  note c1 = inst [THEN conjunct1, rule_format, OF toy_train]
  note c2 = inst [THEN conjunct2, rule_format, OF toy_test]
  have 1: "\<exists>l (t :: (string, string) event list) w'. train ''cpu'' toy_torch [Inr toy_batch, Inr toy_batch, Inr toy_batch]
        toy_model toy_loss_fn toy_optimizer 0 True (1, 0) = (Inr l, t, w') \<and>
      length (filter (\<lambda>c. c = LoaderNext) (map fst t)) = 2 \<and>
      length (filter (\<lambda>c. c = OptimizerStep) (map fst t)) = 2"
    by (intro exI conjI, rule toy_train) (use c1 in simp_all)
  have 2: "\<exists>r (t :: (string, string) event list) w'. test ''cpu'' toy_torch [Inr toy_batch, Inr toy_batch, Inr toy_batch]
        toy_model toy_loss_fn 0 True (1, 0) = (Inr r, t, w') \<and>
      length (filter (\<lambda>c. c = LoaderNext) (map fst t)) = 2 \<and>
      length (filter (\<lambda>c. c = TensorEq) (map fst t)) = 2"
    by (intro exI conjI, rule toy_test) (use c2 in simp_all)
  from h 1 2 show ?thesis by blast
qed

text \<open>
  C3. The calls of \<^verbatim>\<open>train\<close> come batch by batch, and for every batch in this order:
  the batch is fetched from the loader, \<^verbatim>\<open>model.zero_grad()\<close>, the four tensors are
  moved to the device (support inputs and labels, query inputs and labels), the forward
  pass, the loss function, \<^verbatim>\<open>loss.detach().item()\<close>, \<^verbatim>\<open>optimizer.zero_grad()\<close>,
  \<^verbatim>\<open>loss.backward()\<close>, \<^verbatim>\<open>optimizer.step()\<close>. So the optimizer step of a batch comes
  after the loss of that batch was computed. A run that is ended by an exception made a
  prefix of these calls. The number of batches is the least of the length of the loader
  and \<open>num_batches + 2\<close> (1 for a negative \<open>num_batches\<close>).
\<close>

theorem train_calls_in_order:
  fixes t :: "('wr, 'e) event list"
  assumes "train device T dl model loss_fn optimizer n g w = (r, t, w')"
  shows "prefix (map fst t)
           (concat (replicate (min (length dl) (if n < 0 then 1 else nat n + 2))
              [LoaderNext, ModelZeroGrad, TensorTo device, TensorTo device, TensorTo device,
               TensorTo device, ModelCall g, LossFn, DetachItem, OptimizerZeroGrad,
               LossBackward, OptimizerStep])) \<and>
         ((\<exists>l. r = Inr l) \<longrightarrow>
          map fst t =
            concat (replicate (min (length dl) (if n < 0 then 1 else nat n + 2))
              [LoaderNext, ModelZeroGrad, TensorTo device, TensorTo device, TensorTo device,
               TensorTo device, ModelCall g, LossFn, DetachItem, OptimizerZeroGrad,
               LossBackward, OptimizerStep]))"
proof -
  have k: "iterations n 0 = (if n < 0 then 1 else nat n + 2)"
    by (simp add: iterations_def)
  from follows_train [of "\<lambda>c::'wr call. [c]" g w device T dl model loss_fn optimizer n]
  have "prefix (map fst t)
          (concat (replicate (min (length dl) (iterations n 0)) (train_calls device g))) \<and>
        (isl r \<or>
         map fst t =
           concat (replicate (min (length dl) (iterations n 0)) (train_calls device g)))"
    by (simp add: follows_def assms marks_all train_calls_def)
  then show ?thesis
    unfolding k train_calls_def by auto
qed

theorem train_calls_in_order_witness:
  "train ''cpu'' toy_torch [Inr toy_batch, Inr toy_batch, Inr toy_batch] toy_model toy_loss_fn
     toy_optimizer 0 True (1, 0) =
   (Inr (Float (- 1)),
    map (\<lambda>c. (c, None))
      (train_calls ''cpu'' True @ train_calls ''cpu'' True :: string call list),
    (3, - 4)) \<and>
   (\<exists>l. (Inr (Float (- 1)) :: string exn + pyfloat) = Inr l) \<and>
   map fst (map (\<lambda>c. (c, None :: string option))
      (train_calls ''cpu'' True @ train_calls ''cpu'' True :: string call list)) =
     concat (replicate 2
       [LoaderNext, ModelZeroGrad, TensorTo ''cpu'', TensorTo ''cpu'', TensorTo ''cpu'',
        TensorTo ''cpu'', ModelCall True, LossFn, DetachItem, OptimizerZeroGrad,
        LossBackward, OptimizerStep])"
proof -
  have ok: "\<exists>l. (Inr (Float (- 1)) :: string exn + pyfloat) = Inr l" by simp
  from train_calls_in_order [OF toy_train, THEN conjunct2, rule_format, OF ok]
  have "map fst (map (\<lambda>c. (c, None :: string option))
      (train_calls ''cpu'' True @ train_calls ''cpu'' True :: string call list)) =
     concat (replicate 2
       [LoaderNext, ModelZeroGrad, TensorTo ''cpu'', TensorTo ''cpu'', TensorTo ''cpu'',
        TensorTo ''cpu'', ModelCall True, LossFn, DetachItem, OptimizerZeroGrad,
        LossBackward, OptimizerStep])"
    by (simp add: numeral_2_eq_2)
  with toy_train ok show ?thesis by blast
qed

text \<open>
  C4. \<^verbatim>\<open>main\<close> asks \<^verbatim>\<open>os.path.exists\<close> once, for the path
  \<^verbatim>\<open><parent>/data//omniglot\<close> where \<^verbatim>\<open><parent>\<close> is
  \<^verbatim>\<open>os.path.abspath(os.path.join(path, os.pardir))\<close> (the doubled slash comes from the
  two f-strings and names the same directory), after the metrics writer was made. The
  dataset constructor is called at most twice, first for the meta-train split, then
  for the meta-val split, both times with \<^verbatim>\<open>download\<close> true exactly when the path
  did not exist; a run that returns made both calls. If making the writer raises,
  no dataset is constructed.
\<close>

theorem download_iff_omniglot_missing:
  assumes "main device E config g w = (r, t, w')"
  shows "case SummaryWriter E (logdir_of config) w of
           (Inl e, w1) \<Rightarrow> filter is_omniglot (map fst t) = []
         | (Inr writer, w1) \<Rightarrow>
             (let parent_dir = os_path_abspath E (os_path_join E (path config) ''..'');
                  download = (\<not> os_path_exists E (parent_dir @ ''/data//omniglot'') w1);
                  both = [Omniglot (parent_dir @ ''/data/'') (num_samples config)
                            (num_classes config) True MetaTrain download,
                          Omniglot (parent_dir @ ''/data/'') (num_samples config)
                            (num_classes config) True MetaVal download]
              in prefix (filter is_omniglot (map fst t)) both \<and>
                 (r = Inr () \<longrightarrow> filter is_omniglot (map fst t) = both))"
proof (cases "SummaryWriter E (logdir_of config) w")
  case (Pair x w1)
  show ?thesis
  proof (cases x)
    case (Inl e)
    with Pair assms main_writer_raises [of E config w e w1 device g] show ?thesis
      by auto
  next
    case (Inr writer)
    with Pair have sw: "SummaryWriter E (logdir_of config) w = (Inr writer, w1)"
      by simp
    have e: "epoch_marks (only is_omniglot) (\<lambda>tag s. []) config = (\<lambda>s. [])"
      by (simp add: epoch_marks_def only_def fun_eq_iff)
    from follows_main [OF quiet_only_omniglot _ sw, of "\<lambda>tag s. []" g device]
    have "follows (only is_omniglot) g w (main device E config)
       [Omniglot (data_dir E config) (num_samples config) (num_classes config) True MetaTrain
          (\<not> os_path_exists E (omniglot_dir E config) w1),
        Omniglot (data_dir E config) (num_samples config) (num_classes config) True MetaVal
          (\<not> os_path_exists E (omniglot_dir E config) w1)]"
      by (simp add: only_def e concat_map_Nil)
    with assms sw show ?thesis
      by (auto simp: follows_def marks_only Let_def data_dir_def omniglot_dir_def)
  qed
qed

theorem download_iff_omniglot_missing_witness:
  "main ''cpu'' toy_env toy_config True (1, 0) =
     (fst (main ''cpu'' toy_env toy_config True (1, 0)),
      fst (snd (main ''cpu'' toy_env toy_config True (1, 0))),
      snd (snd (main ''cpu'' toy_env toy_config True (1, 0)))) \<and>
   fst (main ''cpu'' toy_env toy_config True (1, 0)) = Inr () \<and>
   \<not> os_path_exists toy_env ''/work/data//omniglot'' (1, 0) \<and>
   filter is_omniglot (map fst (fst (snd (main ''cpu'' toy_env toy_config True (1, 0))))) =
     [Omniglot ''/work/data/'' 1 5 True MetaTrain True,
      Omniglot ''/work/data/'' 1 5 True MetaVal True]"
proof -
  have run: "main ''cpu'' toy_env toy_config True (1, 0) =
     (fst (main ''cpu'' toy_env toy_config True (1, 0)),
      fst (snd (main ''cpu'' toy_env toy_config True (1, 0))),
      snd (snd (main ''cpu'' toy_env toy_config True (1, 0))))"
    by simp
  have ne: "\<not> os_path_exists toy_env ''/work/data//omniglot'' (1, 0)"
    by (simp add: toy_env_def)
  from download_iff_omniglot_missing [OF run] toy_main_returns
  have "filter is_omniglot (map fst (fst (snd (main ''cpu'' toy_env toy_config True (1, 0))))) =
     [Omniglot ''/work/data/'' 1 5 True MetaTrain True,
      Omniglot ''/work/data/'' 1 5 True MetaVal True]"
    by (simp add: toy_writer Let_def) (simp add: toy_env_def toy_config_def)
  with run toy_main_returns ne show ?thesis by blast
qed



text \<open>
  C6. The scalars that \<^verbatim>\<open>main\<close> writes are, epoch by epoch for the epochs that pass the
  gate \<^verbatim>\<open>t % log_every == 0\<close>, the three with the tags \<^verbatim>\<open>Train Loss\<close>, \<^verbatim>\<open>Test Loss\<close>
  and \<^verbatim>\<open>Meta-Test Accuracy\<close>, in this order, each with the epoch as its step and each
  written to the writer that \<^verbatim>\<open>SummaryWriter\<close> gave for the directory
  \<^verbatim>\<open><path>/model/_<num_classes>_1\<close>. Nothing is written for another epoch. A run that
  returns wrote all of them; a run that an exception ended wrote a prefix of them; if
  making the writer raised, nothing was written.
\<close>

theorem scalars_written:
  assumes "main device E config g w = (r, t, w')"
  shows "case SummaryWriter E
                (path config @ ''/model/_'' @ str_int (num_classes config) @ ''_1'') w of
           (Inl e, w1) \<Rightarrow> marks scalar_of t = []
         | (Inr writer, w1) \<Rightarrow>
             (let written = concat (map (\<lambda>s. [(writer, ''Train Loss'', s),
                                               (writer, ''Test Loss'', s),
                                               (writer, ''Meta-Test Accuracy'', s)])
                              (filter (logs_at config) [0..epochs config - 1]))
              in prefix (marks scalar_of t) written \<and>
                 (r = Inr () \<longrightarrow> marks scalar_of t = written))"
  unfolding logdir_of_eq
proof (cases "SummaryWriter E (logdir_of config) w")
  case (Pair x w1)
  show "case SummaryWriter E (logdir_of config) w of
           (Inl e, w1) \<Rightarrow> marks scalar_of t = []
         | (Inr writer, w1) \<Rightarrow>
             (let written = concat (map (\<lambda>s. [(writer, ''Train Loss'', s),
                                               (writer, ''Test Loss'', s),
                                               (writer, ''Meta-Test Accuracy'', s)])
                              (filter (logs_at config) [0..epochs config - 1]))
              in prefix (marks scalar_of t) written \<and>
                 (r = Inr () \<longrightarrow> marks scalar_of t = written))"
  proof (cases x)
    case (Inl e)
    with Pair assms main_writer_raises [of E config w e w1 device g] show ?thesis
      by auto
  next
    case (Inr writer)
    with Pair have sw: "SummaryWriter E (logdir_of config) w = (Inr writer, w1)"
      by simp
    have e: "epoch_marks scalar_of (\<lambda>tag s. [(writer, tag, s)]) config =
        (\<lambda>s. if logs_at config s
              then [(writer, ''Train Loss'', s), (writer, ''Test Loss'', s),
                    (writer, ''Meta-Test Accuracy'', s)]
              else [])"
      by (simp add: epoch_marks_def fun_eq_iff)
    from follows_main [OF quiet_scalar_of _ sw, of "\<lambda>tag s. [(writer, tag, s)]" g device]
    have "follows scalar_of g w (main device E config)
       (concat (map (\<lambda>s. [(writer, ''Train Loss'', s), (writer, ''Test Loss'', s),
                          (writer, ''Meta-Test Accuracy'', s)])
           (filter (logs_at config) [0..epochs config - 1])))"
      by (simp add: e concat_map_if_filter)
    with assms sw show ?thesis
      by (auto simp: follows_def Let_def)
  qed
qed

theorem scalars_written_witness:
  "main ''cpu'' toy_env toy_config True (1, 0) =
     (fst (main ''cpu'' toy_env toy_config True (1, 0)),
      fst (snd (main ''cpu'' toy_env toy_config True (1, 0))),
      snd (snd (main ''cpu'' toy_env toy_config True (1, 0)))) \<and>
   fst (main ''cpu'' toy_env toy_config True (1, 0)) = Inr () \<and>
   filter (logs_at toy_config) [0..epochs toy_config - 1] = [0] \<and>
   marks scalar_of (fst (snd (main ''cpu'' toy_env toy_config True (1, 0)))) =
     [(''/work/run/model/_5_1'', ''Train Loss'', 0), (''/work/run/model/_5_1'', ''Test Loss'', 0),
      (''/work/run/model/_5_1'', ''Meta-Test Accuracy'', 0)]"
proof -
  have run: "main ''cpu'' toy_env toy_config True (1, 0) =
     (fst (main ''cpu'' toy_env toy_config True (1, 0)),
      fst (snd (main ''cpu'' toy_env toy_config True (1, 0))),
      snd (snd (main ''cpu'' toy_env toy_config True (1, 0))))"
    by simp
  have gate: "filter (logs_at toy_config) [0..epochs toy_config - 1] = [0]"
    by code_simp
  from scalars_written [OF run, unfolded logdir_of_eq] toy_main_returns
  have "marks scalar_of (fst (snd (main ''cpu'' toy_env toy_config True (1, 0)))) =
     [(''/work/run/model/_5_1'', ''Train Loss'', 0), (''/work/run/model/_5_1'', ''Test Loss'', 0),
      (''/work/run/model/_5_1'', ''Meta-Test Accuracy'', 0)]"
    by (simp add: toy_writer Let_def gate)
  with run toy_main_returns gate show ?thesis by blast
qed

text \<open>
  C7. \<^verbatim>\<open>test\<close> leaves the parameters of the model as they are. Its calls that touch the
  world are \<^verbatim>\<open>model.zero_grad()\<close> and the forward pass, which it makes with autograd
  switched off; it makes no backward pass and no optimizer call. So if these two calls
  leave the parameters alone (as the framework's \<^verbatim>\<open>zero_grad\<close>, which clears gradients,
  and a forward pass do), the parameters after \<^verbatim>\<open>test\<close> are the parameters before it,
  whether it returns or raises. \<open>params\<close> is any observation of the world.
\<close>

theorem test_keeps_parameters:
  fixes t :: "('wr, 'e) event list" and w :: 'w
  assumes "\<forall>w. params (snd (m_zero_grad model w)) = params w"
    and "\<forall>a b c w. params (snd (m_call model False a b c w)) = params w"
    and "test device T dl model loss_fn n g w = (r, t, w')"
  shows "params w' = params w \<and>
         filter (\<lambda>c. c = OptimizerStep \<or> c = OptimizerZeroGrad \<or> c = LossBackward \<or>
                      c = ModelCall True) (map fst t) = []"
proof -
  have "keeps params g
          (test device T dl model loss_fn n :: (pyfloat \<times> pyfloat, 'w, 'e, 'wr) prog)"
    by (rule keeps_test) (simp_all add: assms(1,2))
  then have "params (snd (snd (test device T dl model loss_fn n g w
          :: ('e exn + pyfloat \<times> pyfloat) \<times> ('wr, 'e) event list \<times> 'w))) = params w"
    by (simp add: keeps_def)
  then have 1: "params w' = params w"
    by (simp add: assms(3))
  let ?P = "\<lambda>c::'wr call. c = OptimizerStep \<or> c = OptimizerZeroGrad \<or> c = LossBackward \<or>
                      c = ModelCall True"
  have "only ?P NoGradExit = []"
    by (simp add: only_def)
  from follows_test [of "only ?P", OF this, of g w device T dl model loss_fn n]
  have "marks (only ?P) t = []"
    by (simp add: follows_def assms(3) only_def test_calls_def concat_replicate_Nil)
  then have 2: "filter ?P (map fst t) = []"
    by (simp add: marks_only)
  from 1 2 show ?thesis by simp
qed

theorem test_keeps_parameters_witness:
  "(\<forall>w. fst (snd (m_zero_grad toy_model w)) = fst w) \<and>
   (\<forall>a b c w. fst (snd (m_call toy_model False a b c w)) = fst w) \<and>
   test ''cpu'' toy_torch [Inr toy_batch, Inr toy_batch, Inr toy_batch] toy_model toy_loss_fn
     0 True (1, 0) =
   (Inr (Float (1 / 2), Float 2),
    map (\<lambda>c. (c, None))
      ([NoGradEnter] @ test_calls ''cpu'' @ test_calls ''cpu'' @ [NoGradExit]
        :: string call list),
    (1, 0)) \<and>
   fst (1 :: int, 0 :: int) = fst (1 :: int, 0 :: int) \<and>
   filter (\<lambda>c. c = OptimizerStep \<or> c = OptimizerZeroGrad \<or> c = LossBackward \<or>
                c = ModelCall True)
     (map fst (map (\<lambda>c. (c, None :: string option))
        ([NoGradEnter] @ test_calls ''cpu'' @ test_calls ''cpu'' @ [NoGradExit]
          :: string call list))) = []"
proof -
  have h1: "\<forall>w. fst (snd (m_zero_grad toy_model w)) = fst w"
    by (simp add: toy_model_def split_def)
  have h2: "\<forall>a b c w. fst (snd (m_call toy_model False a b c w)) = fst w"
    by (simp add: toy_model_def split_def)
  from test_keeps_parameters [of fst toy_model, OF h1 h2 toy_test] h1 h2 toy_test
  show ?thesis by simp
qed

text \<open>
  C8. For \<open>log_every \<ge> 1\<close> the course of \<^verbatim>\<open>main\<close> is, epoch after epoch: the banner of
  the epoch is printed and, exactly when \<^verbatim>\<open>t mod log_every = 0\<close>, the test loop is
  entered and the three scalars of the epoch are written (\<^verbatim>\<open>train\<close> shows nothing here).
  So epoch 0 is always tested and logged. A run that returns shows the whole course, a
  run that an exception ended shows a prefix of it. For \<open>log_every = 0\<close> and at least one
  epoch the run does not return: it prints at most the banner of the first epoch, never
  enters the test loop and writes no scalar, and unless a library call raised before,
  it ends with \<^verbatim>\<open>ZeroDivisionError\<close>.
\<close>

theorem logging_gate:
  fixes E :: "('w, 'e, 't, 'ps, 'wr, 'ds) env"
  assumes "main device E config g w = (r, t, w')"
  shows "(1 \<le> log_every config \<longrightarrow>
            (let course = concat (map (\<lambda>s. Printed (banner s) #
                              (if s mod log_every config = 0
                               then [TestRuns, ScalarWritten ''Train Loss'' s,
                                     ScalarWritten ''Test Loss'' s,
                                     ScalarWritten ''Meta-Test Accuracy'' s]
                               else []))
                            [0..epochs config - 1])
             in prefix (marks gate_of t) course \<and>
                (r = Inr () \<longrightarrow> marks gate_of t = course))) \<and>
         (log_every config = 0 \<and> 1 \<le> epochs config \<longrightarrow>
            r \<noteq> Inr () \<and> prefix (marks gate_of t) [Printed (banner 0)] \<and>
            ((\<forall>ev \<in> set t. snd ev = None) \<longrightarrow> r = Inl ZeroDivisionError))"
proof (cases "SummaryWriter E (logdir_of config) w")
  case (Pair x w1)
  show ?thesis
  proof (cases x)
    case (Inl e)
    with Pair assms main_writer_raises [of E config w e w1 device g] show ?thesis
      by (auto simp: Let_def)
  next
    case (Inr writer)
    with Pair have sw: "SummaryWriter E (logdir_of config) w = (Inr writer, w1)"
      by simp
    have one: "prefix (marks gate_of t) course \<and> (r = Inr () \<longrightarrow> marks gate_of t = course)"
      if le: "1 \<le> log_every config"
        and course: "course = concat (map (\<lambda>s. Printed (banner s) #
                              (if s mod log_every config = 0
                               then [TestRuns, ScalarWritten ''Train Loss'' s,
                                     ScalarWritten ''Test Loss'' s,
                                     ScalarWritten ''Meta-Test Accuracy'' s]
                               else []))
                            [0..epochs config - 1])"
      for course
    proof -
      from le have e: "epoch_marks gate_of (\<lambda>tag s. [ScalarWritten tag s]) config =
        (\<lambda>s. Printed (banner s) #
              (if s mod log_every config = 0
               then [TestRuns, ScalarWritten ''Train Loss'' s, ScalarWritten ''Test Loss'' s,
                     ScalarWritten ''Meta-Test Accuracy'' s]
               else []))"
        by (auto simp: epoch_marks_def logs_at_def fun_eq_iff)
      from follows_main [OF quiet_gate_of _ sw, of "\<lambda>tag s. [ScalarWritten tag s]" g device]
      have "follows gate_of g w (main device E config) course"
        by (simp add: e course)
      with assms show ?thesis
        by (auto simp: follows_def)
    qed
    have two: "r \<noteq> Inr () \<and> prefix (marks gate_of t) [Printed (banner 0)] \<and>
        ((\<forall>ev \<in> set t. snd ev = None) \<longrightarrow> r = Inl ZeroDivisionError)"
      if z: "log_every config = 0" and ep: "1 \<le> epochs config"
    proof -
      from ep have ts: "[0..epochs config - 1] = 0 # [1..epochs config - 1]"
        by (simp add: upto_rec1)
      from main_zero_raises [OF z ep, of device E g w] assms have r: "isl r"
        by simp
      have loop: "follows gate_of g w0
          (epochs_loop device E config writer trl tel model optimizer loss_fn
             [0..epochs config - 1])
          (gate_of (Print (banner 0) :: 'wr call))" for w0 trl tel model optimizer loss_fn
        unfolding ts by (rule follows_epochs_loop_zero [OF quiet_gate_of z])
      from follows_main_loop [OF quiet_gate_of sw loop]
      have "follows gate_of g w (main device E config) [Printed (banner 0)]"
        by simp
      with assms have p: "prefix (marks gate_of t) [Printed (banner 0)]"
        by (simp add: follows_def)
      have "propagates (log_every config = 0) (main device E config)"
        by (rule propagates_main)
      with assms have u: "unhandled r t"
        by (auto simp: propagates_def dest!: spec [of _ g] spec [of _ w])
      have "r = Inl ZeroDivisionError" if clean: "\<forall>ev \<in> set t. snd ev = None"
      proof (cases r)
        case (Inl x)
        show ?thesis
        proof (cases x)
          case ZeroDivisionError
          with Inl show ?thesis by simp
        next
          case (LibraryError y)
          with Inl u obtain c where "(c, Some y) \<in> set t"
            by (auto simp: unhandled_def)
          with clean show ?thesis by auto
        qed
      next
        case (Inr u)
        with r show ?thesis by simp
      qed
      with r p show ?thesis by auto
    qed
    from one two show ?thesis
      by (simp add: Let_def)
  qed
qed

theorem logging_gate_witness:
  "1 \<le> log_every toy_config \<and>
   fst (main ''cpu'' toy_env toy_config True (1, 0)) = Inr () \<and>
   marks gate_of (fst (snd (main ''cpu'' toy_env toy_config True (1, 0)))) =
     [Printed (banner 0), TestRuns, ScalarWritten ''Train Loss'' 0,
      ScalarWritten ''Test Loss'' 0, ScalarWritten ''Meta-Test Accuracy'' 0,
      Printed (banner 1)] \<and>
   log_every (toy_config\<lparr>log_every := 0\<rparr>) = 0 \<and>
   1 \<le> epochs (toy_config\<lparr>log_every := 0\<rparr>) \<and>
   filter (\<lambda>ev. snd ev \<noteq> None)
     (fst (snd (main ''cpu'' toy_env (toy_config\<lparr>log_every := 0\<rparr>) True (1, 0)))) = [] \<and>
   fst (main ''cpu'' toy_env (toy_config\<lparr>log_every := 0\<rparr>) True (1, 0)) =
     Inl ZeroDivisionError"
proof -
  have run: "main ''cpu'' toy_env toy_config True (1, 0) =
     (fst (main ''cpu'' toy_env toy_config True (1, 0)),
      fst (snd (main ''cpu'' toy_env toy_config True (1, 0))),
      snd (snd (main ''cpu'' toy_env toy_config True (1, 0))))"
    by simp
  have run0: "main ''cpu'' toy_env (toy_config\<lparr>log_every := 0\<rparr>) True (1, 0) =
     (fst (main ''cpu'' toy_env (toy_config\<lparr>log_every := 0\<rparr>) True (1, 0)),
      fst (snd (main ''cpu'' toy_env (toy_config\<lparr>log_every := 0\<rparr>) True (1, 0))),
      snd (snd (main ''cpu'' toy_env (toy_config\<lparr>log_every := 0\<rparr>) True (1, 0))))"
    by simp
  have le: "1 \<le> log_every toy_config"
    by (simp add: toy_config_def)
  have z: "log_every (toy_config\<lparr>log_every := 0\<rparr>) = 0 \<and>
      1 \<le> epochs (toy_config\<lparr>log_every := 0\<rparr>)"
    by (simp add: toy_config_def)
  have course: "concat (map (\<lambda>s. Printed (banner s) #
                              (if s mod log_every toy_config = 0
                               then [TestRuns, ScalarWritten ''Train Loss'' s,
                                     ScalarWritten ''Test Loss'' s,
                                     ScalarWritten ''Meta-Test Accuracy'' s]
                               else []))
                            [0..epochs toy_config - 1]) =
     [Printed (banner 0), TestRuns, ScalarWritten ''Train Loss'' 0,
      ScalarWritten ''Test Loss'' 0, ScalarWritten ''Meta-Test Accuracy'' 0,
      Printed (banner 1)]"
    by code_simp
  from logging_gate [OF run, THEN conjunct1, rule_format, OF le] toy_main_returns
  have 1: "marks gate_of (fst (snd (main ''cpu'' toy_env toy_config True (1, 0)))) =
     [Printed (banner 0), TestRuns, ScalarWritten ''Train Loss'' 0,
      ScalarWritten ''Test Loss'' 0, ScalarWritten ''Meta-Test Accuracy'' 0,
      Printed (banner 1)]"
    by (simp add: Let_def course)
  from logging_gate [OF run0, THEN conjunct2, rule_format, OF z] toy_main_zero_clean
  have 2: "fst (main ''cpu'' toy_env (toy_config\<lparr>log_every := 0\<rparr>) True (1, 0)) =
     Inl ZeroDivisionError"
    by blast
  from toy_main_zero_clean
  have 3: "filter (\<lambda>ev. snd ev \<noteq> None)
     (fst (snd (main ''cpu'' toy_env (toy_config\<lparr>log_every := 0\<rparr>) True (1, 0)))) = []"
    by (simp add: filter_empty_conv)
  from le toy_main_returns 1 z 3 2 show ?thesis by blast
qed

text \<open>
  C9. \<^verbatim>\<open>train\<close>, \<^verbatim>\<open>test\<close> and \<^verbatim>\<open>main\<close> catch nothing. Whatever a call into a library
  raises is the exception that ends the run; an exception that ends a run was raised by
  one of its library calls, or, in \<^verbatim>\<open>main\<close> and only for \<^verbatim>\<open>log_every = 0\<close>, it is the
  interpreter's \<^verbatim>\<open>ZeroDivisionError\<close>. The script raises no exception of its own making.
\<close>

theorem exceptions_are_not_caught:
  fixes w :: 'w and T :: "('w, 'e, 't) torch" and E :: "('w, 'e, 't, 'ps, 'wr, 'ds) env"
  shows
  "(case (train device T dl model loss_fn optimizer n :: (pyfloat, 'w, 'e, 'wr) prog) g w of
      (r, t, w') \<Rightarrow> unhandled r t \<and> r \<noteq> Inl ZeroDivisionError) \<and>
   (case (test device T dl model loss_fn n :: (pyfloat \<times> pyfloat, 'w, 'e, 'wr) prog) g w of
      (r, t, w') \<Rightarrow> unhandled r t \<and> r \<noteq> Inl ZeroDivisionError) \<and>
   (case main device E config g w of
      (r, t, w') \<Rightarrow> unhandled r t \<and> (r = Inl ZeroDivisionError \<longrightarrow> log_every config = 0))"
proof (intro conjI)
  have "propagates False
      (train device T dl model loss_fn optimizer n :: (pyfloat, 'w, 'e, 'wr) prog)"
    by (rule propagates_train)
  then show "case (train device T dl model loss_fn optimizer n
            :: (pyfloat, 'w, 'e, 'wr) prog) g w of
      (r, t, w') \<Rightarrow> unhandled r t \<and> r \<noteq> Inl ZeroDivisionError"
    by (simp add: propagates_def)
  have "propagates False
      (test device T dl model loss_fn n :: (pyfloat \<times> pyfloat, 'w, 'e, 'wr) prog)"
    by (rule propagates_test)
  then show "case (test device T dl model loss_fn n
            :: (pyfloat \<times> pyfloat, 'w, 'e, 'wr) prog) g w of
      (r, t, w') \<Rightarrow> unhandled r t \<and> r \<noteq> Inl ZeroDivisionError"
    by (simp add: propagates_def)
  have "propagates (log_every config = 0) (main device E config)"
    by (rule propagates_main)
  then show "case main device E config g w of
      (r, t, w') \<Rightarrow> unhandled r t \<and> (r = Inl ZeroDivisionError \<longrightarrow> log_every config = 0)"
    by (simp add: propagates_def)
qed

theorem exceptions_are_not_caught_witness:
  "(LoaderNext, Some ''boom'') \<in>
     set (map (\<lambda>c. (c, None)) (train_calls ''cpu'' True :: string call list) @
          [(LoaderNext, Some ''boom'')]) \<and>
   train ''cpu'' toy_torch [Inr toy_batch, Inl ''boom''] toy_model toy_loss_fn
     toy_optimizer 0 True (1, 0) =
   (Inl (LibraryError ''boom''),
    map (\<lambda>c. (c, None)) (train_calls ''cpu'' True :: string call list) @
      [(LoaderNext, Some ''boom'')],
    (- 1, 2)) \<and>
   fst (main ''cpu'' toy_env (toy_config\<lparr>log_every := 0\<rparr>) True (1, 0)) =
     Inl ZeroDivisionError \<and>
   log_every (toy_config\<lparr>log_every := 0\<rparr>) = 0"
proof -
  let ?t = "map (\<lambda>c. (c, None)) (train_calls ''cpu'' True :: string call list) @
          [(LoaderNext, Some ''boom'')]"
  have ev: "(LoaderNext, Some ''boom'') \<in> set ?t" by simp
  note inst = exceptions_are_not_caught [where device = "''cpu''" and T = toy_torch
      and dl = "[Inr toy_batch, Inl ''boom'']" and model = toy_model and loss_fn = toy_loss_fn
      and optimizer = toy_optimizer and n = 0 and g = True and w = "(1, 0)" and E = toy_env
      and config = "toy_config\<lparr>log_every := 0\<rparr>"]
  from inst [THEN conjunct1]
  have u: "unhandled (Inl (LibraryError ''boom'') :: string exn + pyfloat) ?t"
    by (simp add: toy_train_raises)
  from inst [THEN conjunct2, THEN conjunct2] toy_main_zero
  have z: "log_every (toy_config\<lparr>log_every := 0\<rparr>) = 0"
    by (simp add: split_def)
  from u ev have "(Inl (LibraryError ''boom'') :: string exn + pyfloat) =
      Inl (LibraryError ''boom'')"
    unfolding unhandled_def by blast
  with ev toy_train_raises toy_main_zero z show ?thesis by blast
qed

end
